theory Spec2Isabelle
  imports Main "HOL-Library.Word"
begin

text \<open>
  A model of the aionFS development server: the JSON-backed store of volumes, snapshots
  and checkpoint manifests (\<open>internal/store/store.go\<close>) and the HTTP handlers on top of
  it (\<open>internal/httpapi/server.go\<close>). Every function of the source is a function here
  under the same name. What the source gets from outside (the clock, the UUID generator,
  the file system, the JSON codec, the order in which a map is visited) is an argument.
\<close>

section \<open>Data model (internal/store/store.go)\<close>

text \<open>
  A \<open>time.Time\<close> is modelled by the instant it denotes: the number of nanoseconds since
  Go's zero time (January 1, year 1, 00:00:00 UTC). Every time the store keeps comes from
  \<open>time.Now().UTC()\<close> or from the state file, so neither a monotonic reading nor a
  location other than UTC is attached to it.
\<close>

type_synonym Time = int

definition IsZero :: "Time \<Rightarrow> bool" where
  "IsZero t \<longleftrightarrow> t = 0"

record MountInfo =
  Mode :: string
  HostPath :: string
  State :: string

record Session =
  SessionID :: string
  Principal :: string
  ConsumerEndpoint :: string
  AttachedAt :: Time

record Volume =
  VolumeID :: string
  OwnerPrincipal :: string
  Class :: string
  QuotaBytes :: "64 word"
  PolicyProfile :: string
  ExportMode :: string
  MountHandle :: MountInfo
  AttachState :: string
  AttachSession :: "Session option"
  CreatedAt :: Time
  UpdatedAt :: Time

record Snapshot =
  SnapshotID :: string
  VolumeID :: string
  CreatedAt :: Time
  Note :: string

record Checkpoint =
  ManifestID :: string
  SnapshotIDs :: "string list"
  CreatedAt :: Time
  Note :: string

text \<open>
  \<open>fileState\<close> is what the state file holds. A Go map may be nil after decoding (the key
  is absent or \<open>null\<close>), hence the options.
\<close>

record fileState =
  Volumes :: "(string \<rightharpoonup> Volume) option"
  Snapshots :: "(string \<rightharpoonup> Snapshot list) option"
  Checkpoints :: "(string \<rightharpoonup> Checkpoint) option"

text \<open>The in-memory part of \<open>FileStore\<close>; the mutex has no counterpart in a sequential model.\<close>

record FileStore =
  path :: string
  volumes :: "string \<rightharpoonup> Volume"
  snaps :: "string \<rightharpoonup> Snapshot list"
  cp :: "string \<rightharpoonup> Checkpoint"

text \<open>
  Errors are values. \<open>ErrVolumeNotFound\<close> is the store's sentinel; every other error of the
  store is an operating system or encoding error wrapped by \<open>fmt.Errorf\<close>, kept as its
  message.
\<close>

datatype error = ErrVolumeNotFound | Wrapped string

fun Error :: "error \<Rightarrow> string" where
  "Error ErrVolumeNotFound = ''volume not found''"
| "Error (Wrapped msg) = msg"

section \<open>The environment of the store\<close>

text \<open>
  The file system is a map from paths to file contents. \<open>encoding/json\<close> is not part of the
  repository: the encoder and the decoder of \<open>fileState\<close> are parameters. \<open>json_Encode\<close>
  returns the text, or the message of its error; \<open>json_Decode\<close> returns the first JSON
  value of the text decoded into a \<open>fileState\<close>, or the message of its error.
\<close>

type_synonym files = "string \<rightharpoonup> string"

record encoding_json =
  json_Encode :: "fileState \<Rightarrow> string + string"
  json_Decode :: "string \<Rightarrow> string + fileState"

text \<open>
  What the operating system does to one call of \<open>flushLocked\<close>: nothing goes wrong, or one
  of its four steps fails. A failed step carries the message of the system's error, and a
  failed write or close also what had reached the temporary file by then.
\<close>

datatype flush_fault =
    NoFault
  | OpenFileFails string
  | WriteFails string string
  | CloseFails string string
  | RenameFails string

section \<open>Persistence: load and flushLocked\<close>



definition payload_of :: "FileStore \<Rightarrow> fileState" where
  "payload_of s = \<lparr>Volumes = Some (volumes s), Snapshots = Some (snaps s), Checkpoints = Some (cp s)\<rparr>"

definition flushLocked :: "encoding_json \<Rightarrow> flush_fault \<Rightarrow> FileStore \<Rightarrow> files \<Rightarrow> error option \<times> files" where
  "flushLocked js ft s d =
     (let tmpPath = path s @ ''.tmp'';
          payload = payload_of s
      in case ft of
           OpenFileFails msg \<Rightarrow> (Some (Wrapped (''open temp state: '' @ msg)), d)
         | _ \<Rightarrow>
           (case json_Encode js payload of
              Inl msg \<Rightarrow> (Some (Wrapped (''encode state: '' @ msg)), d(tmpPath \<mapsto> []))
            | Inr b \<Rightarrow>
               (case ft of
                  WriteFails msg part \<Rightarrow> (Some (Wrapped (''encode state: '' @ msg)), d(tmpPath \<mapsto> part))
                | CloseFails msg part \<Rightarrow> (Some (Wrapped (''close temp state: '' @ msg)), d(tmpPath \<mapsto> part))
                | RenameFails msg \<Rightarrow> (Some (Wrapped (''replace state file: '' @ msg)), d(tmpPath \<mapsto> b))
                | _ \<Rightarrow> (None, (d(tmpPath := None))(path s \<mapsto> b)))))"

section \<open>Volume registry, snapshot catalog and checkpoints (FileStore methods)\<close>

definition GetVolume :: "FileStore \<Rightarrow> string \<Rightarrow> error + Volume" where
  "GetVolume s vid = (case volumes s vid of None \<Rightarrow> Inl ErrVolumeNotFound | Some v \<Rightarrow> Inr v)"

definition PutVolume ::
  "encoding_json \<Rightarrow> Time \<Rightarrow> flush_fault \<Rightarrow> Volume \<Rightarrow> FileStore \<times> files \<Rightarrow> (error + Volume) \<times> FileStore \<times> files" where
  \<comment> \<open>\<open>now\<close> is what \<open>time.Now().UTC()\<close> returns in this call.\<close>
  "PutVolume js now ft v0 = (\<lambda>(s, d).
     let v1 = v0\<lparr>UpdatedAt := now\<rparr>;
         v = (case volumes s (Volume.VolumeID v1) of
                Some existing \<Rightarrow>
                  if \<not> IsZero (Volume.CreatedAt existing)
                  then v1\<lparr>Volume.CreatedAt := Volume.CreatedAt existing\<rparr>
                  else v1\<lparr>Volume.CreatedAt := now\<rparr>
              | None \<Rightarrow> v1\<lparr>Volume.CreatedAt := now\<rparr>);
         s' = s\<lparr>volumes := (volumes s)(Volume.VolumeID v \<mapsto> v)\<rparr>
     in case flushLocked js ft s' d of
          (Some err, d') \<Rightarrow> (Inl err, s', d')
        | (None, d') \<Rightarrow> (Inr v, s', d'))"

definition snaps_of :: "FileStore \<Rightarrow> string \<Rightarrow> Snapshot list" where
  \<comment> \<open>\<open>s.snaps[volumeID]\<close>: the nil slice when the key is absent.\<close>
  "snaps_of s vid = (case snaps s vid of None \<Rightarrow> [] | Some l \<Rightarrow> l)"

definition AddSnapshot ::
  "encoding_json \<Rightarrow> flush_fault \<Rightarrow> string \<Rightarrow> Snapshot \<Rightarrow> FileStore \<times> files \<Rightarrow> (error + Snapshot) \<times> FileStore \<times> files" where
  "AddSnapshot js ft volumeID snap = (\<lambda>(s, d).
     case volumes s volumeID of
       None \<Rightarrow> (Inl ErrVolumeNotFound, s, d)
     | Some _ \<Rightarrow>
        (let s' = s\<lparr>snaps := (snaps s)(volumeID \<mapsto> snaps_of s volumeID @ [snap])\<rparr>
         in case flushLocked js ft s' d of
              (Some err, d') \<Rightarrow> (Inl err, s', d')
            | (None, d') \<Rightarrow> (Inr snap, s', d')))"

definition ListSnapshots :: "FileStore \<Rightarrow> string \<Rightarrow> Snapshot list" where
  "ListSnapshots s volumeID = [] @ snaps_of s volumeID"

definition LatestSnapshot :: "FileStore \<Rightarrow> string \<Rightarrow> Snapshot option" where
  "LatestSnapshot s volumeID =
     (let l = snaps_of s volumeID in if length l = 0 then None else Some (l ! (length l - 1)))"

definition PutCheckpoint ::
  "encoding_json \<Rightarrow> flush_fault \<Rightarrow> Checkpoint \<Rightarrow> FileStore \<times> files \<Rightarrow> (error + Checkpoint) \<times> FileStore \<times> files" where
  "PutCheckpoint js ft c = (\<lambda>(s, d).
     let s' = s\<lparr>cp := (cp s)(ManifestID c \<mapsto> c)\<rparr>
     in case flushLocked js ft s' d of
          (Some err, d') \<Rightarrow> (Inl err, s', d')
        | (None, d') \<Rightarrow> (Inr c, s', d'))"

definition DeleteVolume ::
  "encoding_json \<Rightarrow> flush_fault \<Rightarrow> string \<Rightarrow> FileStore \<times> files \<Rightarrow> error option \<times> FileStore \<times> files" where
  "DeleteVolume js ft vid = (\<lambda>(s, d).
     case volumes s vid of
       None \<Rightarrow> (Some ErrVolumeNotFound, s, d)
     | Some _ \<Rightarrow>
        (let s' = s\<lparr>volumes := (volumes s)(vid := None)\<rparr>
         in case flushLocked js ft s' d of (err, d') \<Rightarrow> (err, s', d')))"

text \<open>
  Go visits the keys of a map in an order it does not specify. Every function that ranges
  over a map therefore takes the order of that visit as its argument \<open>ord\<close>; it is an order
  of the map when it lists every key once.
\<close>

definition range_order :: "('k \<rightharpoonup> 'v) \<Rightarrow> 'k list \<Rightarrow> bool" where
  "range_order m ord \<longleftrightarrow> distinct ord \<and> set ord = dom m"

definition ListVolumes :: "string list \<Rightarrow> FileStore \<Rightarrow> Volume list" where
  "ListVolumes ord s = List.map_filter (volumes s) ord"

definition ListVolumesByOwner :: "string list \<Rightarrow> FileStore \<Rightarrow> string \<Rightarrow> Volume list" where
  "ListVolumesByOwner ord s owner =
     filter (\<lambda>v. Volume.OwnerPrincipal v = owner) (List.map_filter (volumes s) ord)"

definition VolumeIDForSnapshot :: "string list \<Rightarrow> FileStore \<Rightarrow> string \<Rightarrow> string option" where
  "VolumeIDForSnapshot ord s snapshotID =
     List.find (\<lambda>vid. list_ex (\<lambda>snap. SnapshotID snap = snapshotID) (snaps_of s vid)) ord"

definition ListCheckpoints :: "string list \<Rightarrow> FileStore \<Rightarrow> Checkpoint list" where
  "ListCheckpoints ord s = List.map_filter (cp s) ord"

section \<open>Library functions the handlers call\<close>

text \<open>
  \<open>strings.ToLower\<close> on ASCII text, which is all the handlers give it (a prefix of a UUID
  string): the letters A to Z move to a to z, every other byte stays.
\<close>

definition ToLower :: "string \<Rightarrow> string" where
  "ToLower = map (\<lambda>c. let n = (of_char c :: nat) in if 65 \<le> n \<and> n \<le> 90 then char_of (n + 32) else c)"

text \<open>
  \<open>path.Join\<close> joins the non-empty elements with a slash and cleans the result.
  \<open>path.Clean\<close> follows its documented rules: slashes are merged, \<open>.\<close> elements dropped, an
  inner \<open>..\<close> removes the element before it, a \<open>..\<close> at the root is dropped, and the empty
  result is \<open>.\<close>.
\<close>

fun split_slash :: "string \<Rightarrow> string list" where
  "split_slash [] = [Nil]"
| "split_slash (c # cs) =
     (if c = CHR ''/'' then [] # split_slash cs
      else (case split_slash cs of [] \<Rightarrow> [c] # [] | x # xs \<Rightarrow> (c # x) # xs))"

fun join_slash :: "string list \<Rightarrow> string" where
  "join_slash [] = []"
| "join_slash [x] = x"
| "join_slash (x # y # ys) = x @ CHR ''/'' # join_slash (y # ys)"

definition clean_step :: "bool \<Rightarrow> string list \<Rightarrow> string \<Rightarrow> string list" where
  "clean_step rooted out e =
     (if e = [] \<or> e = ''.'' then out
      else if e = ''..'' then
        (if out \<noteq> [] \<and> last out \<noteq> ''..'' then butlast out
         else if rooted then out
         else out @ [e])
      else out @ [e])"

definition Clean :: "string \<Rightarrow> string" where
  "Clean p =
     (if p = [] then ''.''
      else
        let rooted = (hd p = CHR ''/'');
            out = foldl (clean_step rooted) [] (split_slash p);
            r = (if rooted then ''/'' else []) @ join_slash out
        in if r = [] then ''.'' else r)"

definition path_Join :: "string list \<Rightarrow> string" where
  "path_Join elem =
     (let es = filter (\<lambda>e. e \<noteq> []) elem
      in if es = [] then [] else Clean (join_slash es))"

text \<open>
  \<open>uuid.NewString\<close> returns the canonical form of a random UUID: 36 characters, lower-case
  hexadecimal digits with a hyphen at positions 8, 13, 18 and 23. The handlers slice its
  first eight characters; on a string of 36 characters that slice never panics, and the
  model writes it as \<open>take 8\<close>.
\<close>

definition hexdigit :: "char \<Rightarrow> bool" where
  "hexdigit c \<longleftrightarrow> c \<in> set ''0123456789abcdef''"

definition uuid_format :: "string \<Rightarrow> bool" where
  "uuid_format u \<longleftrightarrow>
     length u = 36 \<and>
     list_all (\<lambda>i. if i \<in> {8, 13, 18, 23} then u ! i = CHR ''-'' else hexdigit (u ! i)) [0..<36]"

section \<open>Start-up (NewFileStore, and the part of main that calls it)\<close>



section \<open>HTTP handlers (internal/httpapi/server.go)\<close>

text \<open>
  A response is the status written and the JSON payload. The body of a request is what
  \<open>json.NewDecoder(r.Body).Decode\<close> makes of it: an error, \<open>io.EOF\<close> for an empty body, or
  the decoded value.
\<close>

datatype payload =
    errorResponse string string
  | VolumeJSON Volume
  | VolumesJSON "Volume list"
  | SnapshotJSON Snapshot
  | SnapshotsJSON "Snapshot list"
  | CheckpointJSON Checkpoint
  | CheckpointsJSON "Checkpoint list"
  | NoContent

type_synonym response = "nat \<times> payload"

datatype 'a decoded = DecodeError | EOF | Decoded 'a

abbreviation StatusOK :: nat where "StatusOK \<equiv> 200"
abbreviation StatusCreated :: nat where "StatusCreated \<equiv> 201"
abbreviation StatusNoContent :: nat where "StatusNoContent \<equiv> 204"
abbreviation StatusBadRequest :: nat where "StatusBadRequest \<equiv> 400"
abbreviation StatusUnauthorized :: nat where "StatusUnauthorized \<equiv> 401"
abbreviation StatusForbidden :: nat where "StatusForbidden \<equiv> 403"
abbreviation StatusNotFound :: nat where "StatusNotFound \<equiv> 404"
abbreviation StatusInternalServerError :: nat where "StatusInternalServerError \<equiv> 500"

definition mountStateAttached :: string where "mountStateAttached = ''attached''"
definition mountStateAvailable :: string where "mountStateAvailable = ''available''"

definition respondJSON :: "nat \<Rightarrow> payload \<Rightarrow> response" where
  "respondJSON status p = (status, p)"

definition respondError :: "nat \<Rightarrow> string \<Rightarrow> string \<Rightarrow> response" where
  "respondError status code message = respondJSON status (errorResponse code message)"

text \<open>
  \<open>tokens\<close> is the server's token provider, \<open>None\<close> when the server runs without one. The
  context of a request holds the principal that \<open>requireAuth\<close> resolved from the bearer
  token, if any; with a provider configured, \<open>requireAuth\<close> lets no request through
  without one.
\<close>

type_synonym TokenProvider = "(string \<rightharpoonup> string) option"

definition principalFromContext :: "string option \<Rightarrow> string \<times> bool" where
  "principalFromContext ctx = (case ctx of None \<Rightarrow> ([], False) | Some p \<Rightarrow> (p, True))"

record createVolumeRequest =
  OwnerPrincipal :: string
  Class :: string
  QuotaBytes :: "64 word"
  PolicyProfile :: string
  ExportMode :: string

record attachRequest =
  Principal :: string
  SessionID :: string
  ConsumerEndpoint :: string

record detachRequest =
  SessionID :: string

record createSnapshotRequest =
  Note :: string

record createCheckpointRequest =
  VolumeIDs :: "string list"
  Note :: string

text \<open>The answer every handler gives when \<open>GetVolume\<close> (or another store call) fails.\<close>

definition lookupFailed :: "error \<Rightarrow> response" where
  "lookupFailed err =
     (if err = ErrVolumeNotFound
      then respondError StatusNotFound ''not_found'' ''volume not found''
      else respondError StatusInternalServerError ''store_error'' (Error err))"

definition handleCreateVolume ::
  "encoding_json \<Rightarrow> TokenProvider \<Rightarrow> string option \<Rightarrow> createVolumeRequest decoded \<Rightarrow>
   string \<Rightarrow> Time \<Rightarrow> flush_fault \<Rightarrow> FileStore \<times> files \<Rightarrow> response \<times> FileStore \<times> files" where
  \<comment> \<open>\<open>uuid\<close> is what \<open>uuid.NewString()\<close> returns, \<open>now\<close> the time \<open>PutVolume\<close> reads.\<close>
  "handleCreateVolume js tokens ctx body uuid now ft st =
     (case body of
        Decoded req0 \<Rightarrow>
          (let (principal, havePrincipal) = principalFromContext ctx in
           if tokens \<noteq> None \<and> \<not> havePrincipal
           then (respondError StatusUnauthorized ''unauthorized'' ''token required'', st)
           else
             (case
                (if createVolumeRequest.OwnerPrincipal req0 = [] then
                   (if tokens \<noteq> None
                    then Inr (req0\<lparr>createVolumeRequest.OwnerPrincipal := principal\<rparr>)
                    else Inl (respondError StatusBadRequest ''missing_owner'' ''owner_principal is required''))
                 else if tokens \<noteq> None \<and> createVolumeRequest.OwnerPrincipal req0 \<noteq> principal
                 then Inl (respondError StatusForbidden ''principal_mismatch'' ''owner must match token principal'')
                 else Inr req0)
              of
                Inl resp \<Rightarrow> (resp, st)
              | Inr req1 \<Rightarrow>
                 (let req2 = (if createVolumeRequest.ExportMode req1 = []
                              then req1\<lparr>createVolumeRequest.ExportMode := ''fs''\<rparr> else req1);
                      req = (if createVolumeRequest.Class req2 = []
                             then req2\<lparr>createVolumeRequest.Class := ''persistent''\<rparr> else req2);
                      volumeID = ''vol-'' @ ToLower (take 8 uuid);
                      hostPath = path_Join [''/run/aionfs/mounts'', volumeID];
                      v = \<lparr>Volume.VolumeID = volumeID,
                           Volume.OwnerPrincipal = createVolumeRequest.OwnerPrincipal req,
                           Volume.Class = createVolumeRequest.Class req,
                           Volume.QuotaBytes = createVolumeRequest.QuotaBytes req,
                           Volume.PolicyProfile = createVolumeRequest.PolicyProfile req,
                           Volume.ExportMode = createVolumeRequest.ExportMode req,
                           MountHandle = \<lparr>Mode = createVolumeRequest.ExportMode req,
                                          HostPath = hostPath,
                                          State = mountStateAvailable\<rparr>,
                           AttachState = mountStateAvailable,
                           AttachSession = None,
                           Volume.CreatedAt = 0,
                           UpdatedAt = 0\<rparr>
                  in case PutVolume js now ft v st of
                       (Inl err, st') \<Rightarrow>
                         (respondError StatusInternalServerError ''store_error'' (Error err), st')
                     | (Inr persisted, st') \<Rightarrow>
                         (respondJSON StatusCreated (VolumeJSON persisted), st'))))
      | _ \<Rightarrow> (respondError StatusBadRequest ''invalid_payload'' ''unable to decode request body'', st))"

definition handleListVolumes :: "TokenProvider \<Rightarrow> string option \<Rightarrow> string list \<Rightarrow> FileStore \<Rightarrow> response" where
  "handleListVolumes tokens ctx ord s =
     (let (principal, ok) = principalFromContext ctx in
      if tokens \<noteq> None \<and> \<not> ok
      then respondError StatusUnauthorized ''unauthorized'' ''token required''
      else if tokens \<noteq> None
      then respondJSON StatusOK (VolumesJSON (ListVolumesByOwner ord s principal))
      else respondJSON StatusOK (VolumesJSON (ListVolumes ord s)))"

definition handleGetVolume :: "TokenProvider \<Rightarrow> string option \<Rightarrow> string \<Rightarrow> FileStore \<Rightarrow> response" where
  "handleGetVolume tokens ctx vid s =
     (case GetVolume s vid of
        Inl err \<Rightarrow> lookupFailed err
      | Inr v \<Rightarrow>
         (let (principal, ok) = principalFromContext ctx in
          if tokens \<noteq> None \<and> \<not> ok
          then respondError StatusUnauthorized ''unauthorized'' ''token required''
          else if tokens \<noteq> None \<and> Volume.OwnerPrincipal v \<noteq> principal
          then respondError StatusForbidden ''principal_mismatch'' ''principal not authorised for this volume''
          else respondJSON StatusOK (VolumeJSON v)))"

definition handleAttachVolume ::
  "encoding_json \<Rightarrow> TokenProvider \<Rightarrow> string option \<Rightarrow> string \<Rightarrow> attachRequest decoded \<Rightarrow>
   string \<Rightarrow> Time \<Rightarrow> Time \<Rightarrow> flush_fault \<Rightarrow> FileStore \<times> files \<Rightarrow> response \<times> FileStore \<times> files" where
  \<comment> \<open>\<open>attachedAt\<close> is the time the handler reads, \<open>now\<close> the later one \<open>PutVolume\<close> reads.\<close>
  "handleAttachVolume js tokens ctx vid body uuid attachedAt now ft st =
     (case body of
        Decoded req0 \<Rightarrow>
          (let (principal, havePrincipal) = principalFromContext ctx in
           if tokens \<noteq> None \<and> \<not> havePrincipal
           then (respondError StatusUnauthorized ''unauthorized'' ''token required'', st)
           else
             (case GetVolume (fst st) vid of
                Inl err \<Rightarrow> (lookupFailed err, st)
              | Inr vol \<Rightarrow>
                 (case
                    (if attachRequest.Principal req0 = [] then
                       (if tokens \<noteq> None
                        then Inr (req0\<lparr>attachRequest.Principal := principal\<rparr>)
                        else Inl (respondError StatusBadRequest ''missing_principal'' ''principal is required''))
                     else Inr req0)
                  of
                    Inl resp \<Rightarrow> (resp, st)
                  | Inr req1 \<Rightarrow>
                     if attachRequest.Principal req1 \<noteq> Volume.OwnerPrincipal vol
                     then (respondError StatusForbidden ''principal_mismatch''
                             ''principal not authorised for this volume'', st)
                     else
                       (let req = (if attachRequest.SessionID req1 = []
                                   then req1\<lparr>attachRequest.SessionID := ''sess-'' @ ToLower (take 8 uuid)\<rparr>
                                   else req1);
                            vol1 = vol\<lparr>AttachState := mountStateAttached,
                                       MountHandle := (MountHandle vol)\<lparr>State := mountStateAttached\<rparr>,
                                       AttachSession :=
                                         Some \<lparr>Session.SessionID = attachRequest.SessionID req,
                                               Session.Principal = attachRequest.Principal req,
                                               Session.ConsumerEndpoint = attachRequest.ConsumerEndpoint req,
                                               AttachedAt = attachedAt\<rparr>\<rparr>
                        in case PutVolume js now ft vol1 st of
                             (Inl err, st') \<Rightarrow>
                               (respondError StatusInternalServerError ''store_error'' (Error err), st')
                           | (Inr persisted, st') \<Rightarrow>
                               (respondJSON StatusOK (VolumeJSON persisted), st')))))
      | _ \<Rightarrow> (respondError StatusBadRequest ''invalid_payload'' ''unable to decode request body'', st))"

definition handleDetachVolume ::
  "encoding_json \<Rightarrow> TokenProvider \<Rightarrow> string option \<Rightarrow> string \<Rightarrow> detachRequest decoded \<Rightarrow>
   Time \<Rightarrow> flush_fault \<Rightarrow> FileStore \<times> files \<Rightarrow> response \<times> FileStore \<times> files" where
  "handleDetachVolume js tokens ctx vid body now ft st =
     (case body of
        DecodeError \<Rightarrow>
          (respondError StatusBadRequest ''invalid_payload'' ''unable to decode request body'', st)
      | _ \<Rightarrow>
         (case GetVolume (fst st) vid of
            Inl err \<Rightarrow> (lookupFailed err, st)
          | Inr vol \<Rightarrow>
             (let (principal, ok) = principalFromContext ctx in
              if tokens \<noteq> None \<and> \<not> ok
              then (respondError StatusUnauthorized ''unauthorized'' ''token required'', st)
              else if tokens \<noteq> None \<and> Volume.OwnerPrincipal vol \<noteq> principal
              then (respondError StatusForbidden ''principal_mismatch''
                      ''principal not authorised for this volume'', st)
              else
                (let vol1 = vol\<lparr>AttachState := mountStateAvailable,
                                MountHandle := (MountHandle vol)\<lparr>State := mountStateAvailable\<rparr>,
                                AttachSession := None\<rparr>
                 in case PutVolume js now ft vol1 st of
                      (Inl err, st') \<Rightarrow>
                        (respondError StatusInternalServerError ''store_error'' (Error err), st')
                    | (Inr persisted, st') \<Rightarrow>
                        (respondJSON StatusOK (VolumeJSON persisted), st')))))"

definition handleDeleteVolume ::
  "encoding_json \<Rightarrow> TokenProvider \<Rightarrow> string option \<Rightarrow> string \<Rightarrow> flush_fault \<Rightarrow>
   FileStore \<times> files \<Rightarrow> response \<times> FileStore \<times> files" where
  "handleDeleteVolume js tokens ctx vid ft st =
     (let (principal, ok) = principalFromContext ctx;
          denied =
            (if tokens \<noteq> None then
               (if \<not> ok then Some (respondError StatusUnauthorized ''unauthorized'' ''token required'')
                else
                  (case GetVolume (fst st) vid of
                     Inl err \<Rightarrow> Some (lookupFailed err)
                   | Inr vol \<Rightarrow>
                      if Volume.OwnerPrincipal vol \<noteq> principal
                      then Some (respondError StatusForbidden ''principal_mismatch''
                                   ''principal not authorised for this volume'')
                      else None))
             else None)
      in case denied of
           Some resp \<Rightarrow> (resp, st)
         | None \<Rightarrow>
            (case DeleteVolume js ft vid st of
               (Some err, st') \<Rightarrow> (lookupFailed err, st')
             | (None, st') \<Rightarrow> ((StatusNoContent, NoContent), st')))"

definition handleCreateSnapshot ::
  "encoding_json \<Rightarrow> TokenProvider \<Rightarrow> string option \<Rightarrow> string \<Rightarrow> createSnapshotRequest decoded \<Rightarrow>
   string \<Rightarrow> Time \<Rightarrow> flush_fault \<Rightarrow> FileStore \<times> files \<Rightarrow> response \<times> FileStore \<times> files" where
  "handleCreateSnapshot js tokens ctx volumeID body uuid now ft st =
     (let (principal, ok) = principalFromContext ctx in
      if tokens \<noteq> None \<and> \<not> ok
      then (respondError StatusUnauthorized ''unauthorized'' ''token required'', st)
      else
        (case GetVolume (fst st) volumeID of
           Inl err \<Rightarrow> (lookupFailed err, st)
         | Inr vol \<Rightarrow>
            if tokens \<noteq> None \<and> Volume.OwnerPrincipal vol \<noteq> principal
            then (respondError StatusForbidden ''principal_mismatch''
                    ''principal not authorised for this volume'', st)
            else
              (case body of
                 DecodeError \<Rightarrow>
                   (respondError StatusBadRequest ''invalid_payload'' ''unable to decode request body'', st)
               | _ \<Rightarrow>
                  (let req = (case body of Decoded r \<Rightarrow> r | _ \<Rightarrow> \<lparr>createSnapshotRequest.Note = []\<rparr>);
                       snapshot = \<lparr>SnapshotID = ''snap-'' @ ToLower (take 8 uuid),
                                   Snapshot.VolumeID = volumeID,
                                   Snapshot.CreatedAt = now,
                                   Snapshot.Note = createSnapshotRequest.Note req\<rparr>
                   in case AddSnapshot js ft volumeID snapshot st of
                        (Inl err, st') \<Rightarrow> (lookupFailed err, st')
                      | (Inr persisted, st') \<Rightarrow>
                          (respondJSON StatusCreated (SnapshotJSON persisted), st')))))"

definition handleListSnapshots :: "TokenProvider \<Rightarrow> string option \<Rightarrow> string \<Rightarrow> FileStore \<Rightarrow> response" where
  "handleListSnapshots tokens ctx volumeID s =
     (let (principal, ok) = principalFromContext ctx in
      if tokens \<noteq> None \<and> \<not> ok
      then respondError StatusUnauthorized ''unauthorized'' ''token required''
      else
        (case GetVolume s volumeID of
           Inl err \<Rightarrow> lookupFailed err
         | Inr vol \<Rightarrow>
            if tokens \<noteq> None \<and> Volume.OwnerPrincipal vol \<noteq> principal
            then respondError StatusForbidden ''principal_mismatch'' ''principal not authorised for this volume''
            else respondJSON StatusOK (SnapshotsJSON (ListSnapshots s volumeID))))"

text \<open>
  The loop of \<open>handleCreateCheckpoint\<close> over the volume ids. \<open>gen i\<close> is what the \<open>i\<close>-th
  iteration would get from \<open>uuid.NewString\<close>, from \<open>time.Now\<close> and from the file system,
  should it create a snapshot. The result is the error response that ended the loop, or
  the snapshot ids collected.
\<close>

fun checkpointLoop ::
  "encoding_json \<Rightarrow> bool \<Rightarrow> string \<Rightarrow> (nat \<Rightarrow> string \<times> Time \<times> flush_fault) \<Rightarrow> nat \<Rightarrow>
   string list \<Rightarrow> string list \<Rightarrow> FileStore \<times> files \<Rightarrow> (response + string list) \<times> FileStore \<times> files" where
  "checkpointLoop js auth caller gen i [] snapshotIDs st = (Inr snapshotIDs, st)"
| "checkpointLoop js auth caller gen i (vid # rest) snapshotIDs st =
     (case GetVolume (fst st) vid of
        Inl err \<Rightarrow> (Inl (respondError StatusBadRequest ''invalid_volume'' (''unknown volume '' @ vid)), st)
      | Inr vol \<Rightarrow>
         if auth \<and> Volume.OwnerPrincipal vol \<noteq> caller
         then (Inl (respondError StatusForbidden ''principal_mismatch''
                      (''principal not authorised for volume '' @ vid)), st)
         else
           (case LatestSnapshot (fst st) vid of
              Some latest \<Rightarrow>
                checkpointLoop js auth caller gen (Suc i) rest (snapshotIDs @ [SnapshotID latest]) st
            | None \<Rightarrow>
               (case gen i of (uuid, now, ft) \<Rightarrow>
                 (case AddSnapshot js ft vid
                         \<lparr>SnapshotID = ''snap-'' @ ToLower (take 8 uuid),
                          Snapshot.VolumeID = vid,
                          Snapshot.CreatedAt = now,
                          Snapshot.Note = ''auto-generated for checkpoint''\<rparr> st of
                    (Inl err, st') \<Rightarrow>
                      (Inl (respondError StatusInternalServerError ''store_error'' (Error err)), st')
                  | (Inr created, st') \<Rightarrow>
                      checkpointLoop js auth caller gen (Suc i) rest
                        (snapshotIDs @ [SnapshotID created]) st'))))"

definition handleCreateCheckpoint ::
  "encoding_json \<Rightarrow> TokenProvider \<Rightarrow> string option \<Rightarrow> createCheckpointRequest decoded \<Rightarrow>
   string list \<Rightarrow> (nat \<Rightarrow> string \<times> Time \<times> flush_fault) \<Rightarrow> FileStore \<times> files \<Rightarrow>
   response \<times> FileStore \<times> files" where
  \<comment> \<open>\<open>ord\<close> is the order in which the volumes are listed when the request names none;
      \<open>gen (length volumeIDs)\<close> is what the manifest gets after the loop.\<close>
  "handleCreateCheckpoint js tokens ctx body ord gen st =
     (let (principal, ok) = principalFromContext ctx in
      if tokens \<noteq> None \<and> \<not> ok
      then (respondError StatusUnauthorized ''unauthorized'' ''token required'', st)
      else
        (case body of
           Decoded req \<Rightarrow>
            (let volumeIDs =
                   (if length (VolumeIDs req) = 0 then
                      (if tokens \<noteq> None
                       then map Volume.VolumeID (ListVolumesByOwner ord (fst st) principal)
                       else map Volume.VolumeID (ListVolumes ord (fst st)))
                    else VolumeIDs req)
             in case checkpointLoop js (tokens \<noteq> None) principal gen 0 volumeIDs [] st of
                  (Inl resp, st') \<Rightarrow> (resp, st')
                | (Inr snapshotIDs, st') \<Rightarrow>
                   (case gen (length volumeIDs) of (uuid, now, ft) \<Rightarrow>
                     (let manifest = \<lparr>ManifestID = ''chk-'' @ ToLower (take 8 uuid),
                                      SnapshotIDs = snapshotIDs,
                                      Checkpoint.CreatedAt = now,
                                      Checkpoint.Note = createCheckpointRequest.Note req\<rparr>
                      in case PutCheckpoint js ft manifest st' of
                           (Inl err, st'') \<Rightarrow>
                             (respondError StatusInternalServerError ''store_error'' (Error err), st'')
                         | (Inr persisted, st'') \<Rightarrow>
                             (respondJSON StatusCreated (CheckpointJSON persisted), st''))))
         | _ \<Rightarrow> (respondError StatusBadRequest ''invalid_payload'' ''unable to decode request body'', st)))"

text \<open>
  The filter of \<open>handleListCheckpoints\<close>. \<open>includeManifest\<close> is the inner loop over the
  snapshot ids of one manifest: the \<open>j\<close>-th call of \<open>VolumeIDForSnapshot\<close> visits the
  snapshot map in the order \<open>ords j\<close>. \<open>allowedManifests\<close> is the outer loop, the \<open>i\<close>-th
  manifest using the orders \<open>ords i\<close>.
\<close>

fun includeManifest ::
  "FileStore \<Rightarrow> (nat \<Rightarrow> string list) \<Rightarrow> string set \<Rightarrow> nat \<Rightarrow> string list \<Rightarrow> bool" where
  "includeManifest s ords owned j [] = True"
| "includeManifest s ords owned j (sid # sids) =
     (case VolumeIDForSnapshot (ords j) s sid of
        Some vid \<Rightarrow>
          if vid \<notin> owned then False else includeManifest s ords owned (Suc j) sids
      | None \<Rightarrow> includeManifest s ords owned (Suc j) sids)"

fun allowedManifests ::
  "FileStore \<Rightarrow> (nat \<Rightarrow> nat \<Rightarrow> string list) \<Rightarrow> string set \<Rightarrow> nat \<Rightarrow> Checkpoint list \<Rightarrow> Checkpoint list" where
  "allowedManifests s ords owned i [] = []"
| "allowedManifests s ords owned i (c # cs) =
     (if includeManifest s (ords i) owned 0 (SnapshotIDs c)
      then c # allowedManifests s ords owned (Suc i) cs
      else allowedManifests s ords owned (Suc i) cs)"

definition handleListCheckpoints ::
  "TokenProvider \<Rightarrow> string option \<Rightarrow> string list \<Rightarrow> string list \<Rightarrow> (nat \<Rightarrow> nat \<Rightarrow> string list) \<Rightarrow>
   FileStore \<Rightarrow> response" where
  \<comment> \<open>\<open>ordc\<close>, \<open>ordv\<close> and \<open>ords\<close> are the orders in which the checkpoint map, the volume
      map and (call by call) the snapshot map are visited.\<close>
  "handleListCheckpoints tokens ctx ordc ordv ords s =
     (let (principal, ok) = principalFromContext ctx in
      if tokens \<noteq> None \<and> \<not> ok
      then respondError StatusUnauthorized ''unauthorized'' ''token required''
      else
        (let manifests = ListCheckpoints ordc s in
         if tokens \<noteq> None
         then
           (let owned = set (map Volume.VolumeID (ListVolumesByOwner ordv s principal))
            in respondJSON StatusOK (CheckpointsJSON (allowedManifests s ords owned 0 manifests)))
         else respondJSON StatusOK (CheckpointsJSON manifests)))"

section \<open>Named parts of the handlers\<close>

text \<open>
  The records and responses that the handlers build inline, under names of their own, so
  that each handler can be restated as one equation (the lemmas \<open>handle..._eq\<close> below).
\<close>

definition createdVolume :: "createVolumeRequest \<Rightarrow> string \<Rightarrow> string \<Rightarrow> Volume" where
  "createdVolume req owner uuid =
     \<lparr>Volume.VolumeID = ''vol-'' @ ToLower (take 8 uuid),
      Volume.OwnerPrincipal = owner,
      Volume.Class = (if createVolumeRequest.Class req = [] then ''persistent'' else createVolumeRequest.Class req),
      Volume.QuotaBytes = createVolumeRequest.QuotaBytes req,
      Volume.PolicyProfile = createVolumeRequest.PolicyProfile req,
      Volume.ExportMode = (if createVolumeRequest.ExportMode req = [] then ''fs'' else createVolumeRequest.ExportMode req),
      MountHandle = \<lparr>Mode = (if createVolumeRequest.ExportMode req = [] then ''fs'' else createVolumeRequest.ExportMode req),
                     HostPath = path_Join [''/run/aionfs/mounts'', ''vol-'' @ ToLower (take 8 uuid)],
                     State = ''available''\<rparr>,
      AttachState = ''available'',
      AttachSession = None,
      Volume.CreatedAt = 0,
      UpdatedAt = 0\<rparr>"

definition putResponse :: "nat \<Rightarrow> (error + Volume) \<times> FileStore \<times> files \<Rightarrow> response \<times> FileStore \<times> files" where
  "putResponse status x =
     (case x of
        (Inl err, st') \<Rightarrow> (respondError StatusInternalServerError ''store_error'' (Error err), st')
      | (Inr persisted, st') \<Rightarrow> (respondJSON status (VolumeJSON persisted), st'))"

definition attachedVolume :: "Volume \<Rightarrow> attachRequest \<Rightarrow> string \<Rightarrow> string \<Rightarrow> Time \<Rightarrow> Volume" where
  "attachedVolume vol req who uuid attachedAt =
     vol\<lparr>AttachState := ''attached'',
         MountHandle := (MountHandle vol)\<lparr>State := ''attached''\<rparr>,
         AttachSession :=
           Some \<lparr>Session.SessionID =
                   (if attachRequest.SessionID req = [] then ''sess-'' @ ToLower (take 8 uuid)
                    else attachRequest.SessionID req),
                 Session.Principal = who,
                 Session.ConsumerEndpoint = attachRequest.ConsumerEndpoint req,
                 AttachedAt = attachedAt\<rparr>\<rparr>"

definition detachedVolume :: "Volume \<Rightarrow> Volume" where
  "detachedVolume vol =
     vol\<lparr>AttachState := ''available'',
         MountHandle := (MountHandle vol)\<lparr>State := ''available''\<rparr>,
         AttachSession := None\<rparr>"

definition notFound :: response where
  "notFound = respondError StatusNotFound ''not_found'' ''volume not found''"

definition principalMismatch :: response where
  "principalMismatch = respondError StatusForbidden ''principal_mismatch'' ''principal not authorised for this volume''"

definition unauthorized :: response where
  "unauthorized = respondError StatusUnauthorized ''unauthorized'' ''token required''"

definition invalidPayload :: response where
  "invalidPayload = respondError StatusBadRequest ''invalid_payload'' ''unable to decode request body''"

definition checkpointVolumeIDs ::
  "TokenProvider \<Rightarrow> string option \<Rightarrow> string list \<Rightarrow> FileStore \<Rightarrow> createCheckpointRequest \<Rightarrow> string list" where
  "checkpointVolumeIDs tokens ctx ord s req =
     (if VolumeIDs req = [] then
        (if tokens \<noteq> None
         then map Volume.VolumeID (ListVolumesByOwner ord s (fst (principalFromContext ctx)))
         else map Volume.VolumeID (ListVolumes ord s))
      else VolumeIDs req)"

definition putManifest ::
  "encoding_json \<Rightarrow> string \<times> Time \<times> flush_fault \<Rightarrow> createCheckpointRequest \<Rightarrow> string list \<Rightarrow>
   FileStore \<times> files \<Rightarrow> response \<times> FileStore \<times> files" where
  "putManifest js g req snapshotIDs st =
     (case g of (uuid, now, ft) \<Rightarrow>
        (case PutCheckpoint js ft
                \<lparr>ManifestID = ''chk-'' @ ToLower (take 8 uuid), SnapshotIDs = snapshotIDs,
                 Checkpoint.CreatedAt = now, Checkpoint.Note = createCheckpointRequest.Note req\<rparr> st of
           (Inl err, st'') \<Rightarrow> (respondError StatusInternalServerError ''store_error'' (Error err), st'')
         | (Inr persisted, st'') \<Rightarrow> (respondJSON StatusCreated (CheckpointJSON persisted), st'')))"

section \<open>Properties to be checked, as predicates\<close>

text \<open>The invariant of the data model: a session is recorded exactly when the volume is attached.\<close>

definition session_invariant :: "Volume \<Rightarrow> bool" where
  "session_invariant v \<longleftrightarrow> (AttachSession v \<noteq> None) = (AttachState v = ''attached'')"

definition store_invariant :: "FileStore \<Rightarrow> bool" where
  "store_invariant s \<longleftrightarrow> (\<forall>vid v. volumes s vid = Some v \<longrightarrow> session_invariant v)"

text \<open>
  The states the server reaches from the empty store. \<open>reachable\<close> has the handlers that
  change the store as its steps, and an update (\<open>PutVolume\<close>) of a record that satisfies the
  invariant; \<open>reachable_any_update\<close> has the handlers and an update of any record.
\<close>

inductive handler_step ::
  "encoding_json \<Rightarrow> TokenProvider \<Rightarrow> FileStore \<times> files \<Rightarrow> FileStore \<times> files \<Rightarrow> bool"
  for js :: encoding_json and tokens :: TokenProvider where
  create: "handleCreateVolume js tokens ctx body uuid now ft st = (resp, st') \<Longrightarrow> handler_step js tokens st st'"
| attach: "handleAttachVolume js tokens ctx vid body uuid attachedAt now ft st = (resp, st') \<Longrightarrow> handler_step js tokens st st'"
| detach: "handleDetachVolume js tokens ctx vid body now ft st = (resp, st') \<Longrightarrow> handler_step js tokens st st'"
| delete: "handleDeleteVolume js tokens ctx vid ft st = (resp, st') \<Longrightarrow> handler_step js tokens st st'"
| snapshot: "handleCreateSnapshot js tokens ctx vid body uuid now ft st = (resp, st') \<Longrightarrow> handler_step js tokens st st'"
| checkpoint: "handleCreateCheckpoint js tokens ctx body ord gen st = (resp, st') \<Longrightarrow> handler_step js tokens st st'"

inductive reachable ::
  "encoding_json \<Rightarrow> TokenProvider \<Rightarrow> FileStore \<times> files \<Rightarrow> bool"
  for js :: encoding_json and tokens :: TokenProvider where
  empty: "reachable js tokens (\<lparr>path = p, volumes = Map.empty, snaps = Map.empty, cp = Map.empty\<rparr>, d)"
| step: "reachable js tokens st \<Longrightarrow> handler_step js tokens st st' \<Longrightarrow> reachable js tokens st'"
| update: "reachable js tokens st \<Longrightarrow> session_invariant v \<Longrightarrow> PutVolume js now ft v st = (r, st') \<Longrightarrow>
           reachable js tokens st'"

inductive reachable_any_update ::
  "encoding_json \<Rightarrow> TokenProvider \<Rightarrow> FileStore \<times> files \<Rightarrow> bool"
  for js :: encoding_json and tokens :: TokenProvider where
  empty: "reachable_any_update js tokens (\<lparr>path = p, volumes = Map.empty, snaps = Map.empty, cp = Map.empty\<rparr>, d)"
| step: "reachable_any_update js tokens st \<Longrightarrow> handler_step js tokens st st' \<Longrightarrow> reachable_any_update js tokens st'"
| update: "reachable_any_update js tokens st \<Longrightarrow> PutVolume js now ft v st = (r, st') \<Longrightarrow>
           reachable_any_update js tokens st'"

text \<open>The pattern of a generated volume id: \<open>vol-\<close> and eight lower-case hexadecimal digits.\<close>

definition volume_id_pattern :: "string \<Rightarrow> bool" where
  "volume_id_pattern x \<longleftrightarrow> take 4 x = ''vol-'' \<and> length x = 12 \<and> list_all hexdigit (drop 4 x)"

text \<open>
  \<open>flush_succeeds\<close>: the call of \<open>flushLocked\<close> on store \<open>s\<close> and file system \<open>d\<close> returns
  no error. \<open>stored\<close>: the record \<open>PutVolume\<close> stores for a given one, \<open>existing\<close> being the
  record found under its id before.
\<close>

definition flush_succeeds :: "encoding_json \<Rightarrow> flush_fault \<Rightarrow> FileStore \<Rightarrow> files \<Rightarrow> bool" where
  "flush_succeeds js ft s d \<longleftrightarrow> fst (flushLocked js ft s d) = None"

definition stored :: "Time \<Rightarrow> Volume option \<Rightarrow> Volume \<Rightarrow> Volume" where
  "stored now existing v =
     v\<lparr>UpdatedAt := now,
       Volume.CreatedAt :=
         (case existing of
            None \<Rightarrow> now
          | Some e \<Rightarrow> if IsZero (Volume.CreatedAt e) then now else Volume.CreatedAt e)\<rparr>"

text \<open>
  Visibility of checkpoint manifests. \<open>every_snapshot_owned\<close> follows the words of the
  specification: every snapshot id of the manifest is in the history of a volume the
  principal owns. \<open>every_known_snapshot_owned\<close> asks this only of the snapshot ids that are
  in some history. \<open>keys_consistent\<close> and \<open>unique_snapshot_ids\<close> are what generated ids
  give: a volume is stored under its own id, and no snapshot id is in two histories.
\<close>

definition snapshot_ids :: "FileStore \<Rightarrow> string \<Rightarrow> string set" where
  "snapshot_ids s vid = SnapshotID ` set (snaps_of s vid)"

definition owned_snapshot :: "FileStore \<Rightarrow> string \<Rightarrow> string \<Rightarrow> bool" where
  "owned_snapshot s p sid \<longleftrightarrow>
     (\<exists>vid v. volumes s vid = Some v \<and> Volume.OwnerPrincipal v = p \<and> sid \<in> snapshot_ids s vid)"

definition every_snapshot_owned :: "FileStore \<Rightarrow> string \<Rightarrow> Checkpoint \<Rightarrow> bool" where
  "every_snapshot_owned s p c \<longleftrightarrow> (\<forall>sid \<in> set (SnapshotIDs c). owned_snapshot s p sid)"

definition known_snapshot :: "FileStore \<Rightarrow> string \<Rightarrow> bool" where
  "known_snapshot s sid \<longleftrightarrow> (\<exists>vid. sid \<in> snapshot_ids s vid)"

definition every_known_snapshot_owned :: "FileStore \<Rightarrow> string \<Rightarrow> Checkpoint \<Rightarrow> bool" where
  "every_known_snapshot_owned s p c \<longleftrightarrow>
     (\<forall>sid \<in> set (SnapshotIDs c). known_snapshot s sid \<longrightarrow> owned_snapshot s p sid)"

definition keys_consistent :: "FileStore \<Rightarrow> bool" where
  "keys_consistent s \<longleftrightarrow> (\<forall>vid v. volumes s vid = Some v \<longrightarrow> Volume.VolumeID v = vid)"

definition unique_snapshot_ids :: "FileStore \<Rightarrow> bool" where
  "unique_snapshot_ids s \<longleftrightarrow>
     (\<forall>vid vid' sid. sid \<in> snapshot_ids s vid \<and> sid \<in> snapshot_ids s vid' \<longrightarrow> vid = vid')"

section \<open>Sample data for the examples\<close>

definition sample_volume :: "string \<Rightarrow> string \<Rightarrow> Time \<Rightarrow> Volume" where
  "sample_volume vid owner t =
     \<lparr>Volume.VolumeID = vid, Volume.OwnerPrincipal = owner, Volume.Class = ''persistent'',
      Volume.QuotaBytes = 21474836480, Volume.PolicyProfile = ''standard'', Volume.ExportMode = ''fs'',
      MountHandle = \<lparr>Mode = ''fs'', HostPath = ''/run/aionfs/mounts/'' @ vid, State = ''available''\<rparr>,
      AttachState = ''available'', AttachSession = None,
      Volume.CreatedAt = t, UpdatedAt = t\<rparr>"

definition sample_snapshot :: "string \<Rightarrow> string \<Rightarrow> Snapshot" where
  "sample_snapshot sid vid =
     \<lparr>SnapshotID = sid, Snapshot.VolumeID = vid, Snapshot.CreatedAt = 1700, Snapshot.Note = []\<rparr>"

definition sample_checkpoint :: "string \<Rightarrow> string list \<Rightarrow> Checkpoint" where
  "sample_checkpoint mid sids =
     \<lparr>ManifestID = mid, SnapshotIDs = sids, Checkpoint.CreatedAt = 1800, Checkpoint.Note = []\<rparr>"

definition empty_store :: FileStore where
  "empty_store = \<lparr>path = ''data/state.json'', volumes = Map.empty, snaps = Map.empty, cp = Map.empty\<rparr>"

definition sample_store :: FileStore where
  \<comment> \<open>Two volumes of two owners, one snapshot each, and two manifests.\<close>
  "sample_store =
     \<lparr>path = ''data/state.json'',
      volumes = [''vol-0000000a'' \<mapsto> sample_volume ''vol-0000000a'' ''service:a'' 1600,
                 ''vol-0000000b'' \<mapsto> sample_volume ''vol-0000000b'' ''service:b'' 1601],
      snaps = [''vol-0000000a'' \<mapsto> [sample_snapshot ''snap-000000a1'' ''vol-0000000a''],
               ''vol-0000000b'' \<mapsto> [sample_snapshot ''snap-000000b1'' ''vol-0000000b'']],
      cp = [''chk-00000001'' \<mapsto> sample_checkpoint ''chk-00000001'' [''snap-000000a1''],
            ''chk-00000002'' \<mapsto> sample_checkpoint ''chk-00000002'' [''snap-000000a1'', ''snap-000000b1'']]\<rparr>"

definition sample_json :: encoding_json where
  \<comment> \<open>A stand-in for the JSON codec that knows one text, that of \<open>sample_store\<close>.\<close>
  "sample_json =
     \<lparr>json_Encode = (\<lambda>fs. Inr ''sample-state''),
      json_Decode = (\<lambda>b. if b = ''sample-state'' then Inr (payload_of sample_store)
                          else Inl ''unexpected EOF'')\<rparr>"

definition sample_tokens :: TokenProvider where
  "sample_tokens = Some [''token-a'' \<mapsto> ''service:a'', ''token-b'' \<mapsto> ''service:b'']"

definition sample_uuid :: string where
  "sample_uuid = ''4d3c9b1e-7a52-4c0f-9e2b-0123456789ab''"

definition sample_create_request :: createVolumeRequest where
  "sample_create_request =
     \<lparr>createVolumeRequest.OwnerPrincipal = ''service:app1'', createVolumeRequest.Class = [],
      createVolumeRequest.QuotaBytes = 21474836480, createVolumeRequest.PolicyProfile = ''standard'',
      createVolumeRequest.ExportMode = []\<rparr>"

definition sample_attach_request :: "string \<Rightarrow> attachRequest" where
  "sample_attach_request who =
     \<lparr>attachRequest.Principal = who, attachRequest.SessionID = [],
      attachRequest.ConsumerEndpoint = ''podman://piccolod/app1''\<rparr>"

definition sample_created :: "FileStore \<times> files" where
  "sample_created =
     snd (handleCreateVolume sample_json None None (Decoded sample_create_request) sample_uuid 1000 NoFault
            (empty_store, Map.empty))"

definition sample_attached :: "FileStore \<times> files" where
  "sample_attached =
     snd (handleAttachVolume sample_json None None ''vol-4d3c9b1e'' (Decoded (sample_attach_request ''service:app1''))
            sample_uuid 1001 1002 NoFault sample_created)"

definition sample_detached :: "FileStore \<times> files" where
  "sample_detached =
     snd (handleDetachVolume sample_json None None ''vol-4d3c9b1e'' EOF 1003 NoFault sample_attached)"

definition sample_detached_twice :: "FileStore \<times> files" where
  "sample_detached_twice =
     snd (handleDetachVolume sample_json None None ''vol-4d3c9b1e'' EOF 1004 NoFault sample_detached)"

definition inconsistent_volume :: Volume where
  \<comment> \<open>A record that claims to be attached and has no session.\<close>
  "inconsistent_volume = (sample_volume ''vol-0000000c'' ''service:a'' 0)\<lparr>AttachState := ''attached''\<rparr>"

definition sample_gen :: "nat \<Rightarrow> string \<times> Time \<times> flush_fault" where
  "sample_gen i = (sample_uuid, 3000 + int i, NoFault)"

definition fresh_store :: FileStore where
  \<comment> \<open>\<open>sample_store\<close> before the first snapshot of volume a.\<close>
  "fresh_store =
     sample_store\<lparr>snaps := [''vol-0000000b'' \<mapsto> [sample_snapshot ''snap-000000b1'' ''vol-0000000b'']]\<rparr>"

definition sample_checkpoint_request :: createCheckpointRequest where
  "sample_checkpoint_request =
     \<lparr>VolumeIDs = [''vol-0000000a'', ''vol-0000000b''], createCheckpointRequest.Note = ''nightly''\<rparr>"

definition auto_snapshot :: Snapshot where
  "auto_snapshot =
     \<lparr>SnapshotID = ''snap-4d3c9b1e'', Snapshot.VolumeID = ''vol-0000000a'', Snapshot.CreatedAt = 3000,
      Snapshot.Note = ''auto-generated for checkpoint''\<rparr>"

definition sample_manifest :: Checkpoint where
  "sample_manifest =
     \<lparr>ManifestID = ''chk-4d3c9b1e'', SnapshotIDs = [''snap-4d3c9b1e'', ''snap-000000b1''],
      Checkpoint.CreatedAt = 3002, Checkpoint.Note = ''nightly''\<rparr>"

definition checkpointed_store :: FileStore where
  "checkpointed_store =
     fresh_store\<lparr>snaps := (snaps fresh_store)(''vol-0000000a'' \<mapsto> [auto_snapshot]),
                  cp := (cp fresh_store)(''chk-4d3c9b1e'' \<mapsto> sample_manifest)\<rparr>"

definition sample_snap_orders :: "nat \<Rightarrow> nat \<Rightarrow> string list" where
  "sample_snap_orders i j =
     (if even (i + j) then [''vol-0000000a'', ''vol-0000000b''] else [''vol-0000000b'', ''vol-0000000a''])"

definition dangling_store :: FileStore where
  \<comment> \<open>\<open>sample_store\<close> with one manifest, which names a snapshot that no history holds.\<close>
  "dangling_store =
     sample_store\<lparr>cp := [''chk-00000003'' \<mapsto>
                          sample_checkpoint ''chk-00000003'' [''snap-000000a1'', ''snap-deadbeef'']]\<rparr>"




section \<open>Facts about flushLocked\<close>

lemma flushLocked_err: "flushLocked js ft s d = (Some e, d') \<Longrightarrow> e \<noteq> ErrVolumeNotFound"
  by (auto simp: flushLocked_def Let_def split: flush_fault.splits sum.splits)

lemma flushLocked_NoFault:
  "json_Encode js (payload_of s) = Inr b \<Longrightarrow>
   flushLocked js NoFault s d = (None, (d(path s @ ''.tmp'' := None))(path s \<mapsto> b))"
  by (simp add: flushLocked_def)

section \<open>Volume registry: update and delete\<close>

text \<open>
  Claim C7, as amended. \<open>PutVolume\<close> is an upsert: the record stored under the volume's id is
  the one given with \<open>updated_at\<close> set to the time of the operation, in every case. Its
  \<open>created_at\<close> is that of the record stored before when there was one and its
  \<open>created_at\<close> was not the zero time; otherwise it is the time of the operation. No other
  volume, no snapshot history and no checkpoint changes.
\<close>

theorem PutVolume_upsert:
  "case PutVolume js now ft v (s, d) of (r, s', d') \<Rightarrow>
     volumes s' (Volume.VolumeID v) =
       Some (v\<lparr>UpdatedAt := now,
               Volume.CreatedAt :=
                 (case volumes s (Volume.VolumeID v) of
                    None \<Rightarrow> now
                  | Some existing \<Rightarrow>
                      if IsZero (Volume.CreatedAt existing) then now else Volume.CreatedAt existing)\<rparr>)
     \<and> (\<forall>k. k \<noteq> Volume.VolumeID v \<longrightarrow> volumes s' k = volumes s k)
     \<and> snaps s' = snaps s \<and> cp s' = cp s"
  by (cases "flushLocked js ft (s\<lparr>volumes := (volumes s)(Volume.VolumeID v \<mapsto> v)\<rparr>) d")
     (auto simp: PutVolume_def Let_def split: option.splits prod.splits)

theorem PutVolume_upsert_witness:
  "(case PutVolume sample_json 2000 NoFault (sample_volume ''vol-0000000a'' ''service:a'' 0) (sample_store, Map.empty) of
     (r, s', d') \<Rightarrow>
       map_option Volume.CreatedAt (volumes s' ''vol-0000000a'') = Some 1600 \<and>
       map_option UpdatedAt (volumes s' ''vol-0000000a'') = Some 2000 \<and>
       volumes s' ''vol-0000000b'' = volumes sample_store ''vol-0000000b'')"
  using PutVolume_upsert [where js = sample_json and now = 2000 and ft = NoFault and s = sample_store and d = Map.empty
          and v = "sample_volume ''vol-0000000a'' ''service:a'' 0"]
  by (auto simp: sample_volume_def sample_store_def IsZero_def split: prod.splits)

text \<open>
  Claim C7 as stated fails where the record stored before has the zero time as its
  \<open>created_at\<close> (a state file may hold such a record): the update at time 2000 stores
  \<open>created_at = 2000\<close>, not the original 0.
\<close>

theorem PutVolume_created_at_counterexample:
  "volumes (sample_store\<lparr>volumes := [''vol-0000000c'' \<mapsto> sample_volume ''vol-0000000c'' ''service:a'' 0]\<rparr>) ''vol-0000000c''
     = Some (sample_volume ''vol-0000000c'' ''service:a'' 0)
   \<and> Volume.CreatedAt (sample_volume ''vol-0000000c'' ''service:a'' 0) = 0
   \<and> map_option Volume.CreatedAt
       (volumes (fst (snd (PutVolume sample_json 2000 NoFault (sample_volume ''vol-0000000c'' ''service:a'' 0)
          (sample_store\<lparr>volumes := [''vol-0000000c'' \<mapsto> sample_volume ''vol-0000000c'' ''service:a'' 0]\<rparr>, Map.empty))))
        ''vol-0000000c'') = Some 2000"
  by (simp add: PutVolume_def sample_volume_def sample_store_def sample_json_def IsZero_def
        flushLocked_def payload_of_def Let_def)

text \<open>
  Claim C8. \<open>DeleteVolume\<close> of an absent id fails with \<open>ErrVolumeNotFound\<close> and leaves the
  store and the file system as they were. Of a present id it removes that volume's record
  and nothing else: every other volume, every snapshot history (the deleted volume's too)
  and every checkpoint manifest is unchanged; an error it may still return is one of the
  flush, never \<open>ErrVolumeNotFound\<close>.
\<close>

theorem DeleteVolume_frame:
  "(volumes s vid = None \<longrightarrow> DeleteVolume js ft vid (s, d) = (Some ErrVolumeNotFound, s, d)) \<and>
   (volumes s vid \<noteq> None \<longrightarrow>
      (case DeleteVolume js ft vid (s, d) of (err, s', d') \<Rightarrow>
         err \<noteq> Some ErrVolumeNotFound \<and>
         volumes s' vid = None \<and>
         (\<forall>k. k \<noteq> vid \<longrightarrow> volumes s' k = volumes s k) \<and>
         snaps s' = snaps s \<and> cp s' = cp s \<and> path s' = path s))"
  by (cases "flushLocked js ft (s\<lparr>volumes := (volumes s)(vid := None)\<rparr>) d")
     (auto simp: DeleteVolume_def Let_def dest: flushLocked_err split: option.splits prod.splits)

theorem DeleteVolume_frame_witness:
  "volumes sample_store ''vol-0000000c'' = None \<and>
   DeleteVolume sample_json NoFault ''vol-0000000c'' (sample_store, Map.empty) = (Some ErrVolumeNotFound, sample_store, Map.empty) \<and>
   volumes sample_store ''vol-0000000a'' \<noteq> None \<and>
   (case DeleteVolume sample_json NoFault ''vol-0000000a'' (sample_store, Map.empty) of (err, s', d') \<Rightarrow>
      err = None \<and> volumes s' ''vol-0000000a'' = None \<and>
      volumes s' ''vol-0000000b'' = volumes sample_store ''vol-0000000b'' \<and>
      snaps s' ''vol-0000000a'' = Some [sample_snapshot ''snap-000000a1'' ''vol-0000000a''] \<and>
      cp s' = cp sample_store)"
  using DeleteVolume_frame [where s = sample_store and vid = "''vol-0000000c''" and js = sample_json and ft = NoFault and d = Map.empty]
        DeleteVolume_frame [where s = sample_store and vid = "''vol-0000000a''" and js = sample_json and ft = NoFault and d = Map.empty]
  by (auto simp: sample_store_def DeleteVolume_def flushLocked_def sample_json_def Let_def split: prod.splits)

section \<open>The handlers, each as one equation\<close>

lemma handleCreateVolume_eq:
  "handleCreateVolume js tokens ctx (Decoded req) uuid now ft st =
     (if tokens \<noteq> None \<and> ctx = None
      then (respondError StatusUnauthorized ''unauthorized'' ''token required'', st)
      else if createVolumeRequest.OwnerPrincipal req = [] \<and> tokens = None
      then (respondError StatusBadRequest ''missing_owner'' ''owner_principal is required'', st)
      else if createVolumeRequest.OwnerPrincipal req \<noteq> [] \<and> tokens \<noteq> None \<and>
              ctx \<noteq> Some (createVolumeRequest.OwnerPrincipal req)
      then (respondError StatusForbidden ''principal_mismatch'' ''owner must match token principal'', st)
      else putResponse StatusCreated
             (PutVolume js now ft
                (createdVolume req
                   (if createVolumeRequest.OwnerPrincipal req = [] then the ctx
                    else createVolumeRequest.OwnerPrincipal req) uuid) st))"
  by (cases ctx; cases tokens)
     (simp_all add: handleCreateVolume_def principalFromContext_def createdVolume_def putResponse_def
        mountStateAvailable_def Let_def)

lemma handleGetVolume_eq:
  "handleGetVolume tokens ctx vid s =
     (case volumes s vid of
        None \<Rightarrow> notFound
      | Some v \<Rightarrow>
          if tokens \<noteq> None \<and> ctx = None then unauthorized
          else if tokens \<noteq> None \<and> ctx \<noteq> Some (Volume.OwnerPrincipal v) then principalMismatch
          else respondJSON StatusOK (VolumeJSON v))"
  by (cases ctx; cases tokens)
     (auto simp: handleGetVolume_def GetVolume_def lookupFailed_def principalFromContext_def notFound_def
        principalMismatch_def unauthorized_def split: option.splits)

lemma handleAttachVolume_eq:
  "handleAttachVolume js tokens ctx vid (Decoded req) uuid attachedAt now ft st =
     (if tokens \<noteq> None \<and> ctx = None then (unauthorized, st)
      else case volumes (fst st) vid of
        None \<Rightarrow> (notFound, st)
      | Some vol \<Rightarrow>
          if attachRequest.Principal req = [] \<and> tokens = None
          then (respondError StatusBadRequest ''missing_principal'' ''principal is required'', st)
          else if (if attachRequest.Principal req = [] then the ctx else attachRequest.Principal req)
                    \<noteq> Volume.OwnerPrincipal vol
          then (principalMismatch, st)
          else putResponse StatusOK
                 (PutVolume js now ft
                    (attachedVolume vol req (Volume.OwnerPrincipal vol) uuid attachedAt) st))"
  by (cases ctx; cases tokens)
     (auto simp: handleAttachVolume_def GetVolume_def lookupFailed_def principalFromContext_def notFound_def
        principalMismatch_def unauthorized_def attachedVolume_def putResponse_def mountStateAttached_def Let_def
        split: option.splits)

lemma handleDetachVolume_eq:
  "handleDetachVolume js tokens ctx vid body now ft st =
     (if body = DecodeError then (invalidPayload, st)
      else case volumes (fst st) vid of
        None \<Rightarrow> (notFound, st)
      | Some vol \<Rightarrow>
          if tokens \<noteq> None \<and> ctx = None then (unauthorized, st)
          else if tokens \<noteq> None \<and> ctx \<noteq> Some (Volume.OwnerPrincipal vol) then (principalMismatch, st)
          else putResponse StatusOK (PutVolume js now ft (detachedVolume vol) st))"
  by (cases ctx; cases tokens; cases body)
     (auto simp: handleDetachVolume_def GetVolume_def lookupFailed_def principalFromContext_def notFound_def
        principalMismatch_def unauthorized_def detachedVolume_def putResponse_def mountStateAvailable_def
        invalidPayload_def Let_def split: option.splits)

lemma handleDeleteVolume_eq:
  "handleDeleteVolume js tokens ctx vid ft st =
     (if tokens \<noteq> None \<and> ctx = None then (unauthorized, st)
      else case volumes (fst st) vid of
        None \<Rightarrow> (notFound, st)
      | Some vol \<Rightarrow>
          if tokens \<noteq> None \<and> ctx \<noteq> Some (Volume.OwnerPrincipal vol) then (principalMismatch, st)
          else (case DeleteVolume js ft vid st of
                  (Some err, st') \<Rightarrow> (lookupFailed err, st')
                | (None, st') \<Rightarrow> ((StatusNoContent, NoContent), st')))"
  by (cases ctx; cases tokens; cases st)
     (auto simp: handleDeleteVolume_def GetVolume_def lookupFailed_def principalFromContext_def notFound_def
        principalMismatch_def unauthorized_def DeleteVolume_def Let_def split: option.splits)

lemma handleCreateSnapshot_eq:
  "handleCreateSnapshot js tokens ctx vid body uuid now ft st =
     (if tokens \<noteq> None \<and> ctx = None then (unauthorized, st)
      else case volumes (fst st) vid of
        None \<Rightarrow> (notFound, st)
      | Some vol \<Rightarrow>
          if tokens \<noteq> None \<and> ctx \<noteq> Some (Volume.OwnerPrincipal vol) then (principalMismatch, st)
          else if body = DecodeError then (invalidPayload, st)
          else (case AddSnapshot js ft vid
                       \<lparr>SnapshotID = ''snap-'' @ ToLower (take 8 uuid),
                        Snapshot.VolumeID = vid,
                        Snapshot.CreatedAt = now,
                        Snapshot.Note = (case body of Decoded r \<Rightarrow> createSnapshotRequest.Note r | _ \<Rightarrow> [])\<rparr> st of
                  (Inl err, st') \<Rightarrow> (lookupFailed err, st')
                | (Inr persisted, st') \<Rightarrow> (respondJSON StatusCreated (SnapshotJSON persisted), st')))"
  by (cases ctx; cases tokens; cases body)
     (auto simp: handleCreateSnapshot_def GetVolume_def lookupFailed_def principalFromContext_def notFound_def
        principalMismatch_def unauthorized_def invalidPayload_def Let_def split: option.splits)

lemma handleCreateCheckpoint_eq:
  "handleCreateCheckpoint js tokens ctx (Decoded req) ord gen st =
     (if tokens \<noteq> None \<and> ctx = None then (unauthorized, st)
      else
        (case checkpointLoop js (tokens \<noteq> None) (fst (principalFromContext ctx)) gen 0
                (checkpointVolumeIDs tokens ctx ord (fst st) req) [] st of
           (Inl resp, st') \<Rightarrow> (resp, st')
         | (Inr snapshotIDs, st') \<Rightarrow>
             putManifest js (gen (length (checkpointVolumeIDs tokens ctx ord (fst st) req))) req snapshotIDs st'))"
  by (cases ctx; cases tokens; cases "VolumeIDs req = []")
     (simp_all add: handleCreateCheckpoint_def principalFromContext_def checkpointVolumeIDs_def
        putManifest_def unauthorized_def Let_def split: prod.split sum.split)

section \<open>The session invariant\<close>

lemma session_invariant_times [simp]:
  "session_invariant (v\<lparr>UpdatedAt := t\<rparr>) = session_invariant v"
  "session_invariant (v\<lparr>Volume.CreatedAt := t\<rparr>) = session_invariant v"
  by (simp_all add: session_invariant_def)

lemma PutVolume_invariant:
  assumes "PutVolume js now ft v st = (r, st')" and "session_invariant v" and "store_invariant (fst st)"
  shows "store_invariant (fst st')"
proof -
  obtain s d where st: "st = (s, d)" by (cases st)
  obtain e d' where fl: "flushLocked js ft (s\<lparr>volumes := (volumes s)(Volume.VolumeID v \<mapsto>
      v\<lparr>UpdatedAt := now, Volume.CreatedAt := (case volumes s (Volume.VolumeID v) of None \<Rightarrow> now
         | Some existing \<Rightarrow> if IsZero (Volume.CreatedAt existing) then now else Volume.CreatedAt existing)\<rparr>)\<rparr>) d = (e, d')"
    by (cases "flushLocked js ft (s\<lparr>volumes := (volumes s)(Volume.VolumeID v \<mapsto>
      v\<lparr>UpdatedAt := now, Volume.CreatedAt := (case volumes s (Volume.VolumeID v) of None \<Rightarrow> now
         | Some existing \<Rightarrow> if IsZero (Volume.CreatedAt existing) then now else Volume.CreatedAt existing)\<rparr>)\<rparr>) d")
  show ?thesis
    using assms fl unfolding st
    by (auto simp: PutVolume_def Let_def store_invariant_def split: option.splits if_splits)
qed

lemma AddSnapshot_volumes:
  "AddSnapshot js ft vid snap st = (r, st') \<Longrightarrow> volumes (fst st') = volumes (fst st)"
  by (cases st) (auto simp: AddSnapshot_def Let_def split: option.splits prod.splits)

lemma PutCheckpoint_volumes:
  "PutCheckpoint js ft c st = (r, st') \<Longrightarrow> volumes (fst st') = volumes (fst st)"
  by (cases st) (auto simp: PutCheckpoint_def Let_def split: option.splits prod.splits)

lemma DeleteVolume_invariant:
  "DeleteVolume js ft vid st = (r, st') \<Longrightarrow> store_invariant (fst st) \<Longrightarrow> store_invariant (fst st')"
  by (cases st) (auto simp: DeleteVolume_def Let_def store_invariant_def split: option.splits prod.splits if_splits)

lemma store_invariant_cong: "volumes s' = volumes s \<Longrightarrow> store_invariant s' = store_invariant s"
  by (simp add: store_invariant_def)

lemma checkpointLoop_volumes:
  "checkpointLoop js auth caller gen i vids acc st = (r, st') \<Longrightarrow> volumes (fst st') = volumes (fst st)"
proof (induction vids arbitrary: i acc st)
  case Nil
  then show ?case by simp
next
  case (Cons vid rest)
  show ?case
  proof (cases "GetVolume (fst st) vid")
    case (Inl e)
    with Cons.prems show ?thesis by simp
  next
    case (Inr vol)
    show ?thesis
    proof (cases "auth \<and> Volume.OwnerPrincipal vol \<noteq> caller")
      case True
      with Cons.prems Inr show ?thesis by auto
    next
      case False
      show ?thesis
      proof (cases "LatestSnapshot (fst st) vid")
        case (Some latest)
        with Cons.prems Inr False
        have "checkpointLoop js auth caller gen (Suc i) rest (acc @ [SnapshotID latest]) st = (r, st')"
          by auto
        from Cons.IH[OF this] show ?thesis .
      next
        case None
        obtain uuid now ft where g: "gen i = (uuid, now, ft)" by (cases "gen i")
        obtain r1 st1 where a: "AddSnapshot js ft vid
                         \<lparr>SnapshotID = ''snap-'' @ ToLower (take 8 uuid),
                          Snapshot.VolumeID = vid,
                          Snapshot.CreatedAt = now,
                          Snapshot.Note = ''auto-generated for checkpoint''\<rparr> st = (r1, st1)"
          by (cases "AddSnapshot js ft vid
                         \<lparr>SnapshotID = ''snap-'' @ ToLower (take 8 uuid),
                          Snapshot.VolumeID = vid,
                          Snapshot.CreatedAt = now,
                          Snapshot.Note = ''auto-generated for checkpoint''\<rparr> st")
        from AddSnapshot_volumes[OF a] have v1: "volumes (fst st1) = volumes (fst st)" .
        show ?thesis
        proof (cases r1)
          case (Inl e)
          with Cons.prems Inr False None g a v1 show ?thesis by auto
        next
          case (Inr created)
          with Cons.prems \<open>GetVolume (fst st) vid = Inr vol\<close> False None g a
          have "checkpointLoop js auth caller gen (Suc i) rest (acc @ [SnapshotID created]) st1 = (r, st')"
            by auto
          from Cons.IH[OF this] v1 show ?thesis by simp
        qed
      qed
    qed
  qed
qed

lemma PutVolume_invariant':
  "session_invariant v \<Longrightarrow> store_invariant (fst st) \<Longrightarrow>
   store_invariant (fst (snd (PutVolume js now ft v st)))"
  using PutVolume_invariant[of js now ft v st "fst (PutVolume js now ft v st)" "snd (PutVolume js now ft v st)"]
  by simp

lemma snd_putResponse [simp]: "snd (putResponse status x) = snd x"
  by (auto simp: putResponse_def split: prod.splits sum.splits)

lemma session_invariant_built [simp]:
  "session_invariant (createdVolume req owner uuid)"
  "session_invariant (attachedVolume vol areq who uuid t)"
  "session_invariant (detachedVolume vol)"
  by (simp_all add: session_invariant_def createdVolume_def attachedVolume_def detachedVolume_def)

lemma create_inv:
  "store_invariant (fst st) \<Longrightarrow>
   store_invariant (fst (snd (handleCreateVolume js tokens ctx body uuid now ft st)))"
proof (cases body)
  case (Decoded req)
  assume "store_invariant (fst st)"
  then show ?thesis unfolding Decoded handleCreateVolume_eq
    by (simp add: PutVolume_invariant')
qed (simp_all add: handleCreateVolume_def)

lemma attach_inv:
  "store_invariant (fst st) \<Longrightarrow>
   store_invariant (fst (snd (handleAttachVolume js tokens ctx vid body uuid attachedAt now ft st)))"
proof (cases body)
  case (Decoded req)
  assume "store_invariant (fst st)"
  then show ?thesis unfolding Decoded handleAttachVolume_eq
    by (simp add: PutVolume_invariant' split: option.split)
qed (simp_all add: handleAttachVolume_def)

lemma detach_inv:
  "store_invariant (fst st) \<Longrightarrow>
   store_invariant (fst (snd (handleDetachVolume js tokens ctx vid body now ft st)))"
  unfolding handleDetachVolume_eq
  by (simp add: PutVolume_invariant' split: option.split)

lemma delete_inv:
  "store_invariant (fst st) \<Longrightarrow>
   store_invariant (fst (snd (handleDeleteVolume js tokens ctx vid ft st)))"
  unfolding handleDeleteVolume_eq
  by (auto split: option.split prod.split dest: DeleteVolume_invariant)

lemma snapshot_inv:
  "store_invariant (fst st) \<Longrightarrow>
   store_invariant (fst (snd (handleCreateSnapshot js tokens ctx vid body uuid now ft st)))"
  unfolding handleCreateSnapshot_eq
  by (auto split: option.split prod.split sum.split dest!: AddSnapshot_volumes simp: store_invariant_def)

lemma snd_putManifest:
  "volumes (fst (snd (putManifest js g req ids st))) = volumes (fst st)"
proof -
  obtain uuid now ft where g: "g = (uuid, now, ft)" by (cases g)
  show ?thesis
    unfolding putManifest_def g
    by (auto split: prod.split sum.split dest!: PutCheckpoint_volumes)
qed

lemma checkpoint_volumes:
  "volumes (fst (snd (handleCreateCheckpoint js tokens ctx body ord gen st))) = volumes (fst st)"
proof (cases body)
  case (Decoded req)
  show ?thesis
    unfolding Decoded handleCreateCheckpoint_eq
    by (auto split: prod.split sum.split simp: snd_putManifest dest!: checkpointLoop_volumes)
qed (simp_all add: handleCreateCheckpoint_def principalFromContext_def split: prod.split option.split)

lemma handler_step_invariant:
  assumes "handler_step js tokens st st'" and "store_invariant (fst st)"
  shows "store_invariant (fst st')"
  using assms
proof (cases rule: handler_step.cases)
  case (create ctx body uuid now ft resp)
  then show ?thesis using create_inv[OF assms(2), of js tokens ctx body uuid now ft] by simp
next
  case (attach ctx vid body uuid attachedAt now ft resp)
  then show ?thesis using attach_inv[OF assms(2), of js tokens ctx vid body uuid attachedAt now ft] by simp
next
  case (detach ctx vid body now ft resp)
  then show ?thesis using detach_inv[OF assms(2), of js tokens ctx vid body now ft] by simp
next
  case (delete ctx vid ft resp)
  then show ?thesis using delete_inv[OF assms(2), of js tokens ctx vid ft] by simp
next
  case (snapshot ctx vid body uuid now ft resp)
  then show ?thesis using snapshot_inv[OF assms(2), of js tokens ctx vid body uuid now ft] by simp
next
  case (checkpoint ctx body ord gen resp)
  then show ?thesis using checkpoint_volumes[of js tokens ctx body ord gen st] assms(2)
    by (simp add: store_invariant_def)
qed

lemma reachable_invariant: "reachable js tokens st \<Longrightarrow> store_invariant (fst st)"
proof (induction rule: reachable.induct)
  case (empty p d)
  show ?case by (simp add: store_invariant_def)
next
  case (step st st')
  then show ?case by (blast intro: handler_step_invariant)
next
  case (update st v now ft r st')
  then show ?case by (blast intro: PutVolume_invariant)
qed

lemma PutVolume_Inr:
  assumes "PutVolume js now ft v st = (Inr v', st')"
  shows "v' = v\<lparr>UpdatedAt := now,
               Volume.CreatedAt :=
                 (case volumes (fst st) (Volume.VolumeID v) of
                    None \<Rightarrow> now
                  | Some existing \<Rightarrow>
                      if IsZero (Volume.CreatedAt existing) then now else Volume.CreatedAt existing)\<rparr>
         \<and> volumes (fst st') (Volume.VolumeID v) = Some v'"
proof -
  obtain s d where st: "st = (s, d)" by (cases st)
  obtain e d' where fl: "flushLocked js ft (s\<lparr>volumes := (volumes s)(Volume.VolumeID v \<mapsto>
      v\<lparr>UpdatedAt := now, Volume.CreatedAt := (case volumes s (Volume.VolumeID v) of None \<Rightarrow> now
         | Some existing \<Rightarrow> if IsZero (Volume.CreatedAt existing) then now else Volume.CreatedAt existing)\<rparr>)\<rparr>) d = (e, d')"
    by (cases "flushLocked js ft (s\<lparr>volumes := (volumes s)(Volume.VolumeID v \<mapsto>
      v\<lparr>UpdatedAt := now, Volume.CreatedAt := (case volumes s (Volume.VolumeID v) of None \<Rightarrow> now
         | Some existing \<Rightarrow> if IsZero (Volume.CreatedAt existing) then now else Volume.CreatedAt existing)\<rparr>)\<rparr>) d")
  show ?thesis
    using assms fl unfolding st
    by (auto simp: PutVolume_def Let_def split: option.splits if_splits)
qed

lemma putResponse_status:
  "putResponse status x = ((status, p), st') \<Longrightarrow> status \<noteq> StatusInternalServerError \<Longrightarrow>
   \<exists>v. p = VolumeJSON v \<and> x = (Inr v, st')"
  by (auto simp: putResponse_def respondError_def respondJSON_def split: prod.splits sum.splits)

lemma create_result:
  assumes "handleCreateVolume js tokens ctx body uuid now ft st = ((StatusCreated, p), st')"
  shows "\<exists>req owner c v.
           body = Decoded req \<and> p = VolumeJSON v \<and>
           volumes (fst st') (Volume.VolumeID v) = Some v \<and>
           v = (createdVolume req owner uuid)\<lparr>UpdatedAt := now, Volume.CreatedAt := c\<rparr>"
proof (cases body)
  case (Decoded req)
  from assms obtain owner where
    "putResponse StatusCreated (PutVolume js now ft (createdVolume req owner uuid) st) = ((StatusCreated, p), st')"
    unfolding Decoded handleCreateVolume_eq
    by (auto simp: respondError_def respondJSON_def split: if_splits)
  from putResponse_status[OF this] obtain v where
    p: "p = VolumeJSON v" and put: "PutVolume js now ft (createdVolume req owner uuid) st = (Inr v, st')"
    by auto
  from PutVolume_Inr[OF put] have
    "volumes (fst st') (Volume.VolumeID v) = Some v"
    "\<exists>c. v = (createdVolume req owner uuid)\<lparr>UpdatedAt := now, Volume.CreatedAt := c\<rparr>"
    by auto
  with Decoded p show ?thesis by blast
next
  case DecodeError
  with assms show ?thesis by (simp add: handleCreateVolume_def respondError_def respondJSON_def)
next
  case EOF
  with assms show ?thesis by (simp add: handleCreateVolume_def respondError_def respondJSON_def)
qed

text \<open>
  Claim C2, as amended. In every state reached from the empty store by the handlers
  (create, attach, detach, delete, add snapshot, create checkpoint, in any order and with
  any arguments, repeated detach included) and by updates of records that themselves
  satisfy the invariant, every volume has a session if and only if its \<open>attach_state\<close> is
  \<open>attached\<close>. The record a successful create returns and stores has
  \<open>attach_state = available\<close> and no session.
\<close>

theorem session_invariant_reachable:
  "(reachable js tokens st \<longrightarrow> store_invariant (fst st)) \<and>
   (handleCreateVolume js tokens ctx body uuid now ft st0 = ((StatusCreated, p), st1) \<longrightarrow>
      (\<exists>v. p = VolumeJSON v \<and> volumes (fst st1) (Volume.VolumeID v) = Some v \<and>
           AttachState v = ''available'' \<and> AttachSession v = None))"
proof (intro conjI impI)
  assume "reachable js tokens st"
  then show "store_invariant (fst st)" by (rule reachable_invariant)
next
  assume "handleCreateVolume js tokens ctx body uuid now ft st0 = ((StatusCreated, p), st1)"
  from create_result[OF this] obtain req owner c v where
    p: "p = VolumeJSON v" "volumes (fst st1) (Volume.VolumeID v) = Some v" and
    v: "v = (createdVolume req owner uuid)\<lparr>UpdatedAt := now, Volume.CreatedAt := c\<rparr>"
    by blast
  have "AttachState v = ''available'' \<and> AttachSession v = None"
    unfolding v by (simp add: createdVolume_def)
  with p show "\<exists>v. p = VolumeJSON v \<and> volumes (fst st1) (Volume.VolumeID v) = Some v \<and>
           AttachState v = ''available'' \<and> AttachSession v = None"
    by blast
qed

lemma sample_ids:
  "ToLower (take 8 sample_uuid) = ''4d3c9b1e''"
  "path_Join [''/run/aionfs/mounts'', ''vol-4d3c9b1e''] = ''/run/aionfs/mounts/vol-4d3c9b1e''"
  by (simp_all add: ToLower_def sample_uuid_def path_Join_def Clean_def clean_step_def Let_def)

lemma sample_create_eval:
  "handleCreateVolume sample_json None None (Decoded sample_create_request) sample_uuid 1000 NoFault
     (empty_store, Map.empty) =
   ((StatusCreated, VolumeJSON (sample_volume ''vol-4d3c9b1e'' ''service:app1'' 1000)),
    empty_store\<lparr>volumes := [''vol-4d3c9b1e'' \<mapsto> sample_volume ''vol-4d3c9b1e'' ''service:app1'' 1000]\<rparr>,
    [''data/state.json'' \<mapsto> ''sample-state''])"
  by (simp add: handleCreateVolume_eq sample_create_request_def createdVolume_def sample_ids putResponse_def
       PutVolume_def empty_store_def flushLocked_def sample_json_def Let_def sample_volume_def respondJSON_def)

lemma sample_reachable: "reachable sample_json None sample_detached_twice"
  unfolding sample_detached_twice_def sample_detached_def sample_attached_def sample_created_def
  by (intro reachable.step[OF _ handler_step.detach[OF surjective_pairing]]
            reachable.step[OF _ handler_step.attach[OF surjective_pairing]]
            reachable.step[OF _ handler_step.create[OF surjective_pairing]])
     (simp add: empty_store_def reachable.empty)

theorem session_invariant_reachable_witness:
  "reachable sample_json None sample_detached_twice \<and> store_invariant (fst sample_detached_twice) \<and>
   handleCreateVolume sample_json None None (Decoded sample_create_request) sample_uuid 1000 NoFault
     (empty_store, Map.empty) =
   ((StatusCreated, VolumeJSON (sample_volume ''vol-4d3c9b1e'' ''service:app1'' 1000)),
    empty_store\<lparr>volumes := [''vol-4d3c9b1e'' \<mapsto> sample_volume ''vol-4d3c9b1e'' ''service:app1'' 1000]\<rparr>,
    [''data/state.json'' \<mapsto> ''sample-state'']) \<and>
   AttachState (sample_volume ''vol-4d3c9b1e'' ''service:app1'' 1000) = ''available'' \<and>
   AttachSession (sample_volume ''vol-4d3c9b1e'' ''service:app1'' 1000) = None"
  using session_invariant_reachable[where js = sample_json and tokens = None and st = sample_detached_twice
      and ctx = None and body = "Decoded sample_create_request" and uuid = sample_uuid and now = 1000
      and ft = NoFault and ?st0.0 = "(empty_store, Map.empty)"
      and p = "VolumeJSON (sample_volume ''vol-4d3c9b1e'' ''service:app1'' 1000)"
      and ?st1.0 = "(empty_store\<lparr>volumes := [''vol-4d3c9b1e'' \<mapsto> sample_volume ''vol-4d3c9b1e'' ''service:app1'' 1000]\<rparr>,
    [''data/state.json'' \<mapsto> ''sample-state''])"]
    sample_reachable sample_create_eval
  by (simp add: sample_volume_def)

text \<open>
  Claim C2 as stated lets an update store any record. \<open>PutVolume\<close> keeps \<open>attach_state\<close>
  and \<open>attach_session\<close> as given, so one update of a record that says \<open>attached\<close> and has
  no session leaves the empty store in a state that breaks the invariant.
\<close>

theorem unrestricted_update_counterexample:
  "reachable_any_update sample_json None
     (snd (PutVolume sample_json 2000 NoFault inconsistent_volume (empty_store, Map.empty))) \<and>
   volumes (fst (snd (PutVolume sample_json 2000 NoFault inconsistent_volume (empty_store, Map.empty))))
      ''vol-0000000c'' = Some (inconsistent_volume\<lparr>UpdatedAt := 2000, Volume.CreatedAt := 2000\<rparr>) \<and>
   AttachState (inconsistent_volume\<lparr>UpdatedAt := 2000, Volume.CreatedAt := 2000\<rparr>) = ''attached'' \<and>
   AttachSession (inconsistent_volume\<lparr>UpdatedAt := 2000, Volume.CreatedAt := 2000\<rparr>) = None \<and>
   \<not> store_invariant (fst (snd (PutVolume sample_json 2000 NoFault inconsistent_volume (empty_store, Map.empty))))"
proof -
  have r: "reachable_any_update sample_json None
     (snd (PutVolume sample_json 2000 NoFault inconsistent_volume (empty_store, Map.empty)))"
    by (rule reachable_any_update.update[OF _ surjective_pairing])
       (simp add: empty_store_def reachable_any_update.empty)
  have v: "volumes (fst (snd (PutVolume sample_json 2000 NoFault inconsistent_volume (empty_store, Map.empty))))
      ''vol-0000000c'' = Some (inconsistent_volume\<lparr>UpdatedAt := 2000, Volume.CreatedAt := 2000\<rparr>)"
    by (simp add: PutVolume_def inconsistent_volume_def sample_volume_def empty_store_def flushLocked_def
          sample_json_def Let_def)
  have a: "AttachState (inconsistent_volume\<lparr>UpdatedAt := 2000, Volume.CreatedAt := 2000\<rparr>) = ''attached''"
          "AttachSession (inconsistent_volume\<lparr>UpdatedAt := 2000, Volume.CreatedAt := 2000\<rparr>) = None"
    by (simp_all add: inconsistent_volume_def sample_volume_def)
  have "\<not> session_invariant (inconsistent_volume\<lparr>UpdatedAt := 2000, Volume.CreatedAt := 2000\<rparr>)"
    using a by (simp add: session_invariant_def)
  with v have "\<not> store_invariant (fst (snd (PutVolume sample_json 2000 NoFault inconsistent_volume (empty_store, Map.empty))))"
    unfolding store_invariant_def by blast
  with r v a show ?thesis by blast
qed

section \<open>Creating a volume\<close>

lemma hexdigit_cases:
  "hexdigit c \<longleftrightarrow> c = CHR ''0'' \<or> c = CHR ''1'' \<or> c = CHR ''2'' \<or> c = CHR ''3'' \<or> c = CHR ''4'' \<or>
     c = CHR ''5'' \<or> c = CHR ''6'' \<or> c = CHR ''7'' \<or> c = CHR ''8'' \<or> c = CHR ''9'' \<or>
     c = CHR ''a'' \<or> c = CHR ''b'' \<or> c = CHR ''c'' \<or> c = CHR ''d'' \<or> c = CHR ''e'' \<or> c = CHR ''f''"
  by (auto simp: hexdigit_def)

lemma ToLower_hexdigit: "list_all hexdigit h \<Longrightarrow> ToLower h = h"
  by (induction h) (auto simp: ToLower_def hexdigit_cases)

lemma hexdigit_not_slash: "list_all hexdigit h \<Longrightarrow> CHR ''/'' \<notin> set h"
  by (induction h) (auto simp: hexdigit_cases)

lemma uuid_format_prefix:
  assumes "uuid_format u"
  shows "length (take 8 u) = 8" and "list_all hexdigit (take 8 u)"
proof -
  from assms have len: "length u = 36"
    and all: "\<forall>i<36. if i \<in> {8, 13, 18, 23} then u ! i = CHR ''-'' else hexdigit (u ! i)"
    by (auto simp: uuid_format_def list_all_iff)
  from len show "length (take 8 u) = 8" by simp
  have "hexdigit (u ! i)" if "i < 8" for i
    using all that by (auto dest!: spec[of _ i])
  then show "list_all hexdigit (take 8 u)"
    using len by (auto simp: list_all_length)
qed

lemma split_slash_nonempty: "split_slash p \<noteq> []"
  by (induction p) (auto split: list.splits)

lemma split_slash_append: "split_slash (a @ CHR ''/'' # b) = split_slash a @ split_slash b"
  by (induction a) (auto split: list.splits simp: split_slash_nonempty)

lemma split_slash_noslash: "CHR ''/'' \<notin> set h \<Longrightarrow> split_slash h = [h]"
  by (induction h) auto

lemma path_Join_mounts:
  assumes "CHR ''/'' \<notin> set h"
  shows "path_Join [''/run/aionfs/mounts'', ''vol-'' @ h] = ''/run/aionfs/mounts/vol-'' @ h"
proof -
  have s1: "split_slash (''vol-'' @ h) = [''vol-'' @ h]"
    using assms by (intro split_slash_noslash) simp
  have "split_slash (''/run/aionfs/mounts'' @ CHR ''/'' # (''vol-'' @ h)) =
          [Nil, ''run'', ''aionfs'', ''mounts'', ''vol-'' @ h]"
    unfolding split_slash_append s1 by simp
  then show ?thesis
    by (simp add: path_Join_def Clean_def clean_step_def Let_def)
qed

text \<open>
  Claim C9. Every create-volume request that creates a record (status 201), with
  \<open>uuid.NewString\<close> returning a UUID in canonical form, stores and returns a record whose
  \<open>class\<close> is the requested one or \<open>persistent\<close> when omitted, whose \<open>export_mode\<close> is the
  requested one or \<open>fs\<close> when omitted, whose \<open>attach_state\<close> is \<open>available\<close>, whose id is
  \<open>vol-\<close> followed by the first eight characters of the UUID (eight lower-case hexadecimal
  digits), and whose mount handle's host path is \<open>/run/aionfs/mounts/\<close> followed by that id.
\<close>

theorem create_volume_record:
  assumes "uuid_format uuid"
    and "handleCreateVolume js tokens ctx (Decoded req) uuid now ft st = ((StatusCreated, p), st')"
  shows "\<exists>v. p = VolumeJSON v \<and>
           volumes (fst st') (Volume.VolumeID v) = Some v \<and>
           Volume.Class v =
             (if createVolumeRequest.Class req = [] then ''persistent'' else createVolumeRequest.Class req) \<and>
           Volume.ExportMode v =
             (if createVolumeRequest.ExportMode req = [] then ''fs'' else createVolumeRequest.ExportMode req) \<and>
           AttachState v = ''available'' \<and>
           Volume.VolumeID v = ''vol-'' @ take 8 uuid \<and>
           volume_id_pattern (Volume.VolumeID v) \<and>
           HostPath (MountHandle v) = ''/run/aionfs/mounts/'' @ Volume.VolumeID v"
proof -
  from create_result[OF assms(2)] obtain owner c v where
    p: "p = VolumeJSON v" "volumes (fst st') (Volume.VolumeID v) = Some v" and
    v: "v = (createdVolume req owner uuid)\<lparr>UpdatedAt := now, Volume.CreatedAt := c\<rparr>"
    by blast
  note h = uuid_format_prefix[OF assms(1)]
  have low: "ToLower (take 8 uuid) = take 8 uuid"
    by (rule ToLower_hexdigit[OF h(2)])
  have id: "Volume.VolumeID v = ''vol-'' @ take 8 uuid"
    unfolding v by (simp add: createdVolume_def low)
  have pat: "volume_id_pattern (Volume.VolumeID v)"
    unfolding id using h by (simp add: volume_id_pattern_def)
  have hp: "HostPath (MountHandle v) = ''/run/aionfs/mounts/'' @ Volume.VolumeID v"
    unfolding v using path_Join_mounts[OF hexdigit_not_slash[OF h(2)]]
    by (simp add: createdVolume_def low)
  have "Volume.Class v =
             (if createVolumeRequest.Class req = [] then ''persistent'' else createVolumeRequest.Class req)"
    "Volume.ExportMode v =
             (if createVolumeRequest.ExportMode req = [] then ''fs'' else createVolumeRequest.ExportMode req)"
    "AttachState v = ''available''"
    unfolding v by (simp_all add: createdVolume_def)
  with p id pat hp show ?thesis by blast
qed

lemma sample_uuid_format: "uuid_format sample_uuid"
  by (simp add: uuid_format_def sample_uuid_def hexdigit_def upt_rec[of _ "numeral _"])

theorem create_volume_record_witness:
  "uuid_format sample_uuid \<and>
   handleCreateVolume sample_json None None (Decoded sample_create_request) sample_uuid 1000 NoFault
     (empty_store, Map.empty) =
   ((StatusCreated, VolumeJSON (sample_volume ''vol-4d3c9b1e'' ''service:app1'' 1000)),
    empty_store\<lparr>volumes := [''vol-4d3c9b1e'' \<mapsto> sample_volume ''vol-4d3c9b1e'' ''service:app1'' 1000]\<rparr>,
    [''data/state.json'' \<mapsto> ''sample-state'']) \<and>
   Volume.Class (sample_volume ''vol-4d3c9b1e'' ''service:app1'' 1000) = ''persistent'' \<and>
   Volume.ExportMode (sample_volume ''vol-4d3c9b1e'' ''service:app1'' 1000) = ''fs'' \<and>
   volume_id_pattern ''vol-4d3c9b1e'' \<and>
   HostPath (MountHandle (sample_volume ''vol-4d3c9b1e'' ''service:app1'' 1000)) = ''/run/aionfs/mounts/vol-4d3c9b1e''"
  using create_volume_record[OF sample_uuid_format sample_create_eval] sample_uuid_format sample_create_eval
  by (simp add: sample_volume_def sample_uuid_def)

section \<open>The outcome of a flush\<close>

text \<open>
  A flush succeeds exactly when no file operation fails and the encoder accepts the state.
  Every store operation that writes returns what its own flush returns, and leaves the
  modified maps in memory whatever the flush does.
\<close>

lemma PutVolume_state:
  "volumes (fst (snd (PutVolume js now ft v st))) =
     (volumes (fst st))(Volume.VolumeID v \<mapsto> stored now (volumes (fst st) (Volume.VolumeID v)) v)"
  "snaps (fst (snd (PutVolume js now ft v st))) = snaps (fst st)"
  "cp (fst (snd (PutVolume js now ft v st))) = cp (fst st)"
  "path (fst (snd (PutVolume js now ft v st))) = path (fst st)"
  by (cases st; auto simp: PutVolume_def Let_def stored_def split: option.splits prod.splits)+

lemma flush_succeeds_iff:
  "flush_succeeds js ft s d \<longleftrightarrow> ft = NoFault \<and> (\<exists>b. json_Encode js (payload_of s) = Inr b)"
  by (auto simp: flush_succeeds_def flushLocked_def Let_def split: flush_fault.splits sum.splits)

lemma flushLocked_Some_Wrapped:
  "fst (flushLocked js ft s d) = Some err \<Longrightarrow> \<exists>msg. err = Wrapped msg"
  by (auto simp: flushLocked_def Let_def split: flush_fault.splits sum.splits)

lemma PutVolume_explicit:
  "PutVolume js now ft v (s, d) =
     (let v' = stored now (volumes s (Volume.VolumeID v)) v;
          s' = s\<lparr>volumes := (volumes s)(Volume.VolumeID v \<mapsto> v')\<rparr>;
          r = flushLocked js ft s' d
      in (case fst r of Some err \<Rightarrow> Inl err | None \<Rightarrow> Inr v', s', snd r))"
  by (auto simp: PutVolume_def Let_def stored_def split: option.splits prod.splits)

lemma PutVolume_result:
  "fst (PutVolume js now ft v st) =
     (case fst (flushLocked js ft (fst (snd (PutVolume js now ft v st))) (snd st)) of
        None \<Rightarrow> Inr (stored now (volumes (fst st) (Volume.VolumeID v)) v)
      | Some err \<Rightarrow> Inl err)"
  by (cases st) (simp add: PutVolume_explicit Let_def split: option.splits)

lemma putResponse_result:
  "fst (putResponse status (PutVolume js now ft v st)) =
     (case fst (flushLocked js ft (fst (snd (PutVolume js now ft v st))) (snd st)) of
        None \<Rightarrow> respondJSON status (VolumeJSON (stored now (volumes (fst st) (Volume.VolumeID v)) v))
      | Some err \<Rightarrow> respondError StatusInternalServerError ''store_error'' (Error err))"
  using PutVolume_result[of js now ft v st]
  by (cases "PutVolume js now ft v st")
     (auto simp: putResponse_def split: sum.splits option.splits)

lemma AddSnapshot_explicit:
  "volumes s vid \<noteq> None \<Longrightarrow>
   AddSnapshot js ft vid snap (s, d) =
     (let s' = s\<lparr>snaps := (snaps s)(vid \<mapsto> snaps_of s vid @ [snap])\<rparr>;
          r = flushLocked js ft s' d
      in (case fst r of Some err \<Rightarrow> Inl err | None \<Rightarrow> Inr snap, s', snd r))"
  by (auto simp: AddSnapshot_def Let_def split: option.splits prod.splits)

lemma AddSnapshot_result:
  assumes "volumes (fst st) vid \<noteq> None"
  shows "fst (AddSnapshot js ft vid snap st) =
     (case fst (flushLocked js ft (fst (snd (AddSnapshot js ft vid snap st))) (snd st)) of
        None \<Rightarrow> Inr snap | Some err \<Rightarrow> Inl err)"
  using assms by (cases st) (simp add: AddSnapshot_explicit Let_def split: option.splits)

lemma DeleteVolume_explicit:
  "volumes s vid \<noteq> None \<Longrightarrow>
   DeleteVolume js ft vid (s, d) =
     (let s' = s\<lparr>volumes := (volumes s)(vid := None)\<rparr>; r = flushLocked js ft s' d
      in (fst r, s', snd r))"
  by (auto simp: DeleteVolume_def Let_def split: option.splits prod.splits)

lemma DeleteVolume_result:
  assumes "volumes (fst st) vid \<noteq> None"
  shows "fst (DeleteVolume js ft vid st) =
           fst (flushLocked js ft (fst (snd (DeleteVolume js ft vid st))) (snd st))"
  using assms by (cases st) (simp add: DeleteVolume_explicit Let_def)

lemma snd_case_option_pair:
  "snd (case x of (Some err, st') \<Rightarrow> (f err, st') | (None, st') \<Rightarrow> (g, st')) = snd x"
  by (auto split: prod.splits option.splits)

lemma snd_case_sum_pair:
  "snd (case x of (Inl err, st') \<Rightarrow> (f err, st') | (Inr p, st') \<Rightarrow> (g p, st')) = snd x"
  by (auto split: prod.splits sum.splits)

section \<open>Ownership\<close>

text \<open>
  Claim C1, as amended. With a token provider configured, let volume \<open>vid\<close> be owned by \<open>A\<close>
  and let \<open>B\<close> differ from \<open>A\<close>. A get, delete or add-snapshot request authenticated as \<open>B\<close>
  fails with \<open>principal_mismatch\<close> and changes nothing; so does a detach whose body decodes
  (or is empty), and an attach whose body names no principal or a principal other than \<open>A\<close>.
  An attach authenticated as \<open>A\<close> whose body names a principal other than \<open>A\<close> fails with
  \<open>principal_mismatch\<close> as well and changes nothing. The same get authenticated as \<open>A\<close>
  returns the record. The same delete authenticated as \<open>A\<close> answers 204 whenever the flush
  of that request succeeds; likewise the add-snapshot (decodable body) answers 201 with the
  snapshot, the detach (decodable body) answers 200 with the record in state
  \<open>available\<close>, and the attach whose body names no principal or names \<open>A\<close> answers 200
  with the record in state \<open>attached\<close>, each whenever its own flush succeeds.
\<close>

theorem ownership_enforcement:
  assumes "tokens \<noteq> None" and "volumes (fst st) vid = Some v"
    and "Volume.OwnerPrincipal v = A" and "B \<noteq> A"
  shows
   "handleGetVolume tokens (Some B) vid (fst st) = principalMismatch \<and>
    handleDeleteVolume js tokens (Some B) vid ft st = (principalMismatch, st) \<and>
    handleCreateSnapshot js tokens (Some B) vid sbody uuid now ft st = (principalMismatch, st) \<and>
    (dbody \<noteq> DecodeError \<longrightarrow>
       handleDetachVolume js tokens (Some B) vid dbody now ft st = (principalMismatch, st)) \<and>
    (attachRequest.Principal areq = [] \<or> attachRequest.Principal areq \<noteq> A \<longrightarrow>
       handleAttachVolume js tokens (Some B) vid (Decoded areq) uuid attachedAt now ft st
         = (principalMismatch, st)) \<and>
    (attachRequest.Principal areq \<noteq> [] \<and> attachRequest.Principal areq \<noteq> A \<longrightarrow>
       handleAttachVolume js tokens (Some A) vid (Decoded areq) uuid attachedAt now ft st
         = (principalMismatch, st)) \<and>
    handleGetVolume tokens (Some A) vid (fst st) = respondJSON StatusOK (VolumeJSON v) \<and>
    (flush_succeeds js ft (fst (snd (handleDeleteVolume js tokens (Some A) vid ft st))) (snd st) \<longrightarrow>
       fst (handleDeleteVolume js tokens (Some A) vid ft st) = (StatusNoContent, NoContent)) \<and>
    (sbody \<noteq> DecodeError \<and>
     flush_succeeds js ft (fst (snd (handleCreateSnapshot js tokens (Some A) vid sbody uuid now ft st))) (snd st) \<longrightarrow>
       (\<exists>snap. fst (handleCreateSnapshot js tokens (Some A) vid sbody uuid now ft st)
                 = respondJSON StatusCreated (SnapshotJSON snap))) \<and>
    (dbody \<noteq> DecodeError \<and>
     flush_succeeds js ft (fst (snd (handleDetachVolume js tokens (Some A) vid dbody now ft st))) (snd st) \<longrightarrow>
       (\<exists>v'. fst (handleDetachVolume js tokens (Some A) vid dbody now ft st)
                 = respondJSON StatusOK (VolumeJSON v') \<and> AttachState v' = ''available'')) \<and>
    ((attachRequest.Principal areq = [] \<or> attachRequest.Principal areq = A) \<and>
     flush_succeeds js ft
       (fst (snd (handleAttachVolume js tokens (Some A) vid (Decoded areq) uuid attachedAt now ft st))) (snd st) \<longrightarrow>
       (\<exists>v'. fst (handleAttachVolume js tokens (Some A) vid (Decoded areq) uuid attachedAt now ft st)
                 = respondJSON StatusOK (VolumeJSON v') \<and> AttachState v' = ''attached''))"
proof -
  have getB: "handleGetVolume tokens (Some B) vid (fst st) = principalMismatch"
    using assms by (simp add: handleGetVolume_eq)
  have delB: "handleDeleteVolume js tokens (Some B) vid ft st = (principalMismatch, st)"
    using assms by (simp add: handleDeleteVolume_eq)
  have snapB: "handleCreateSnapshot js tokens (Some B) vid sbody uuid now ft st = (principalMismatch, st)"
    using assms by (simp add: handleCreateSnapshot_eq)
  have detB: "handleDetachVolume js tokens (Some B) vid dbody now ft st = (principalMismatch, st)"
    if "dbody \<noteq> DecodeError"
    using assms that by (simp add: handleDetachVolume_eq)
  have attB: "handleAttachVolume js tokens (Some B) vid (Decoded areq) uuid attachedAt now ft st
         = (principalMismatch, st)"
    if "attachRequest.Principal areq = [] \<or> attachRequest.Principal areq \<noteq> A"
    using assms that by (auto simp: handleAttachVolume_eq)
  have attA_other: "handleAttachVolume js tokens (Some A) vid (Decoded areq) uuid attachedAt now ft st
         = (principalMismatch, st)"
    if "attachRequest.Principal areq \<noteq> [] \<and> attachRequest.Principal areq \<noteq> A"
    using assms that by (auto simp: handleAttachVolume_eq)
  have getA: "handleGetVolume tokens (Some A) vid (fst st) = respondJSON StatusOK (VolumeJSON v)"
    using assms by (simp add: handleGetVolume_eq)
  have ex: "volumes (fst st) vid \<noteq> None" using assms(2) by simp
  have delA: "fst (handleDeleteVolume js tokens (Some A) vid ft st) = (StatusNoContent, NoContent)"
    if ok: "flush_succeeds js ft (fst (snd (handleDeleteVolume js tokens (Some A) vid ft st))) (snd st)"
  proof -
    have eq: "handleDeleteVolume js tokens (Some A) vid ft st =
                (case DeleteVolume js ft vid st of
                   (Some err, st') \<Rightarrow> (lookupFailed err, st')
                 | (None, st') \<Rightarrow> ((StatusNoContent, NoContent), st'))"
      using assms by (simp add: handleDeleteVolume_eq)
    have "snd (handleDeleteVolume js tokens (Some A) vid ft st) = snd (DeleteVolume js ft vid st)"
      unfolding eq by (rule snd_case_option_pair)
    with ok have "fst (DeleteVolume js ft vid st) = None"
      by (simp add: flush_succeeds_def DeleteVolume_result[OF ex])
    then show ?thesis
      unfolding eq by (cases "DeleteVolume js ft vid st") simp
  qed
  have snapA: "\<exists>snap. fst (handleCreateSnapshot js tokens (Some A) vid sbody uuid now ft st)
                    = respondJSON StatusCreated (SnapshotJSON snap)"
    if b: "sbody \<noteq> DecodeError"
      and ok: "flush_succeeds js ft (fst (snd (handleCreateSnapshot js tokens (Some A) vid sbody uuid now ft st))) (snd st)"
  proof -
    let ?snap = "\<lparr>SnapshotID = ''snap-'' @ ToLower (take 8 uuid),
                        Snapshot.VolumeID = vid,
                        Snapshot.CreatedAt = now,
                        Snapshot.Note = (case sbody of Decoded r \<Rightarrow> createSnapshotRequest.Note r | _ \<Rightarrow> [])\<rparr>"
    have eq: "handleCreateSnapshot js tokens (Some A) vid sbody uuid now ft st =
                (case AddSnapshot js ft vid ?snap st of
                   (Inl err, st') \<Rightarrow> (lookupFailed err, st')
                 | (Inr persisted, st') \<Rightarrow> (respondJSON StatusCreated (SnapshotJSON persisted), st'))"
      using assms b by (simp add: handleCreateSnapshot_eq)
    have "snd (handleCreateSnapshot js tokens (Some A) vid sbody uuid now ft st) = snd (AddSnapshot js ft vid ?snap st)"
      unfolding eq by (rule snd_case_sum_pair)
    with ok have "fst (AddSnapshot js ft vid ?snap st) = Inr ?snap"
      by (simp add: flush_succeeds_def AddSnapshot_result[OF ex])
    then have "fst (handleCreateSnapshot js tokens (Some A) vid sbody uuid now ft st)
                    = respondJSON StatusCreated (SnapshotJSON ?snap)"
      unfolding eq by (cases "AddSnapshot js ft vid ?snap st") simp
    then show ?thesis by blast
  qed
  have detA: "\<exists>v'. fst (handleDetachVolume js tokens (Some A) vid dbody now ft st)
                    = respondJSON StatusOK (VolumeJSON v') \<and> AttachState v' = ''available''"
    if b: "dbody \<noteq> DecodeError"
      and ok: "flush_succeeds js ft (fst (snd (handleDetachVolume js tokens (Some A) vid dbody now ft st))) (snd st)"
  proof -
    have eq: "handleDetachVolume js tokens (Some A) vid dbody now ft st =
                putResponse StatusOK (PutVolume js now ft (detachedVolume v) st)"
      using assms b by (simp add: handleDetachVolume_eq)
    from ok have "fst (flushLocked js ft (fst (snd (PutVolume js now ft (detachedVolume v) st))) (snd st)) = None"
      unfolding eq by (simp add: flush_succeeds_def)
    then have "fst (handleDetachVolume js tokens (Some A) vid dbody now ft st) =
            respondJSON StatusOK (VolumeJSON (stored now (volumes (fst st) (Volume.VolumeID (detachedVolume v))) (detachedVolume v)))"
      unfolding eq by (simp add: putResponse_result)
    moreover have "AttachState (stored now x (detachedVolume v)) = ''available''" for x
      by (simp add: stored_def detachedVolume_def)
    ultimately show ?thesis by blast
  qed
  have attA: "\<exists>v'. fst (handleAttachVolume js tokens (Some A) vid (Decoded areq) uuid attachedAt now ft st)
                    = respondJSON StatusOK (VolumeJSON v') \<and> AttachState v' = ''attached''"
    if b: "attachRequest.Principal areq = [] \<or> attachRequest.Principal areq = A"
      and ok: "flush_succeeds js ft
       (fst (snd (handleAttachVolume js tokens (Some A) vid (Decoded areq) uuid attachedAt now ft st))) (snd st)"
  proof -
    let ?v = "attachedVolume v areq (Volume.OwnerPrincipal v) uuid attachedAt"
    have eq: "handleAttachVolume js tokens (Some A) vid (Decoded areq) uuid attachedAt now ft st =
                putResponse StatusOK (PutVolume js now ft ?v st)"
      using assms b by (auto simp: handleAttachVolume_eq)
    from ok have "fst (flushLocked js ft (fst (snd (PutVolume js now ft ?v st))) (snd st)) = None"
      unfolding eq by (simp add: flush_succeeds_def)
    then have "fst (handleAttachVolume js tokens (Some A) vid (Decoded areq) uuid attachedAt now ft st) =
            respondJSON StatusOK (VolumeJSON (stored now (volumes (fst st) (Volume.VolumeID ?v)) ?v))"
      unfolding eq by (simp add: putResponse_result)
    moreover have "AttachState (stored now x ?v) = ''attached''" for x
      by (simp add: stored_def attachedVolume_def)
    ultimately show ?thesis by blast
  qed
  show ?thesis
    using getB delB snapB detB attB attA_other getA delA snapA detA attA by blast
qed

theorem ownership_enforcement_witness:
  "sample_tokens \<noteq> None \<and>
   volumes (fst (sample_store, Map.empty)) ''vol-0000000a'' = Some (sample_volume ''vol-0000000a'' ''service:a'' 1600) \<and>
   Volume.OwnerPrincipal (sample_volume ''vol-0000000a'' ''service:a'' 1600) = ''service:a'' \<and>
   ''service:b'' \<noteq> ''service:a'' \<and>
   (EOF :: detachRequest decoded) \<noteq> DecodeError \<and> (EOF :: createSnapshotRequest decoded) \<noteq> DecodeError \<and>
   attachRequest.Principal (sample_attach_request []) = [] \<and>
   flush_succeeds sample_json NoFault
     (fst (snd (handleDeleteVolume sample_json sample_tokens (Some ''service:a'') ''vol-0000000a'' NoFault
        (sample_store, Map.empty)))) (snd (sample_store, Map.empty)) \<and>
   flush_succeeds sample_json NoFault
     (fst (snd (handleCreateSnapshot sample_json sample_tokens (Some ''service:a'') ''vol-0000000a'' EOF sample_uuid 2001 NoFault
        (sample_store, Map.empty)))) (snd (sample_store, Map.empty)) \<and>
   flush_succeeds sample_json NoFault
     (fst (snd (handleDetachVolume sample_json sample_tokens (Some ''service:a'') ''vol-0000000a'' EOF 2001 NoFault
        (sample_store, Map.empty)))) (snd (sample_store, Map.empty)) \<and>
   flush_succeeds sample_json NoFault
     (fst (snd (handleAttachVolume sample_json sample_tokens (Some ''service:a'') ''vol-0000000a''
        (Decoded (sample_attach_request [])) sample_uuid 2000 2001 NoFault (sample_store, Map.empty))))
     (snd (sample_store, Map.empty)) \<and>
   handleGetVolume sample_tokens (Some ''service:b'') ''vol-0000000a'' sample_store = principalMismatch \<and>
   handleDeleteVolume sample_json sample_tokens (Some ''service:b'') ''vol-0000000a'' NoFault (sample_store, Map.empty)
      = (principalMismatch, (sample_store, Map.empty)) \<and>
   handleCreateSnapshot sample_json sample_tokens (Some ''service:b'') ''vol-0000000a'' EOF sample_uuid 2001 NoFault
      (sample_store, Map.empty) = (principalMismatch, (sample_store, Map.empty)) \<and>
   handleDetachVolume sample_json sample_tokens (Some ''service:b'') ''vol-0000000a'' EOF 2001 NoFault
      (sample_store, Map.empty) = (principalMismatch, (sample_store, Map.empty)) \<and>
   handleAttachVolume sample_json sample_tokens (Some ''service:b'') ''vol-0000000a''
      (Decoded (sample_attach_request [])) sample_uuid 2000 2001 NoFault (sample_store, Map.empty)
      = (principalMismatch, (sample_store, Map.empty)) \<and>
   handleGetVolume sample_tokens (Some ''service:a'') ''vol-0000000a'' sample_store
      = respondJSON StatusOK (VolumeJSON (sample_volume ''vol-0000000a'' ''service:a'' 1600)) \<and>
   fst (handleDeleteVolume sample_json sample_tokens (Some ''service:a'') ''vol-0000000a'' NoFault (sample_store, Map.empty))
      = (StatusNoContent, NoContent) \<and>
   fst (fst (handleCreateSnapshot sample_json sample_tokens (Some ''service:a'') ''vol-0000000a'' EOF sample_uuid 2001 NoFault
      (sample_store, Map.empty))) = StatusCreated \<and>
   fst (fst (handleDetachVolume sample_json sample_tokens (Some ''service:a'') ''vol-0000000a'' EOF 2001 NoFault
      (sample_store, Map.empty))) = StatusOK \<and>
   fst (fst (handleAttachVolume sample_json sample_tokens (Some ''service:a'') ''vol-0000000a''
      (Decoded (sample_attach_request [])) sample_uuid 2000 2001 NoFault (sample_store, Map.empty))) = StatusOK \<and>
   attachRequest.Principal (sample_attach_request ''service:b'') \<noteq> [] \<and>
   attachRequest.Principal (sample_attach_request ''service:b'') \<noteq> ''service:a'' \<and>
   handleAttachVolume sample_json sample_tokens (Some ''service:a'') ''vol-0000000a''
      (Decoded (sample_attach_request ''service:b'')) sample_uuid 2000 2001 NoFault (sample_store, Map.empty)
      = (principalMismatch, (sample_store, Map.empty))"
proof -
  have h: "sample_tokens \<noteq> None"
    "volumes (fst (sample_store, Map.empty :: files)) ''vol-0000000a'' = Some (sample_volume ''vol-0000000a'' ''service:a'' 1600)"
    "Volume.OwnerPrincipal (sample_volume ''vol-0000000a'' ''service:a'' 1600) = ''service:a''"
    "''service:b'' \<noteq> ''service:a''"
    by (simp_all add: sample_tokens_def sample_store_def sample_volume_def)
  have e: "attachRequest.Principal (sample_attach_request []) = []"
    "attachRequest.Principal (sample_attach_request ''service:b'') \<noteq> []"
    "attachRequest.Principal (sample_attach_request ''service:b'') \<noteq> ''service:a''"
    by (simp_all add: sample_attach_request_def)
  have f: "flush_succeeds sample_json NoFault s d" for s d
    by (simp add: flush_succeeds_def flushLocked_def sample_json_def)
  show ?thesis
    using ownership_enforcement[OF h, where js = sample_json and ft = NoFault and sbody = EOF and dbody = EOF
        and areq = "sample_attach_request []" and uuid = sample_uuid and now = 2001 and attachedAt = 2000]
      ownership_enforcement[OF h, where js = sample_json and ft = NoFault and sbody = EOF and dbody = EOF
        and areq = "sample_attach_request ''service:b''" and uuid = sample_uuid and now = 2001 and attachedAt = 2000]
      h e f
    by (auto simp: respondJSON_def)
qed

text \<open>
  Claim C1 as stated fails for attach. A request whose body names principal \<open>service:b\<close>
  is refused with \<open>principal_mismatch\<close> when authenticated as \<open>service:b\<close>, and the identical
  request authenticated as the owner \<open>service:a\<close> is refused as well.
\<close>

theorem attach_as_owner_counterexample:
  "handleAttachVolume sample_json sample_tokens (Some ''service:b'') ''vol-0000000a''
      (Decoded (sample_attach_request ''service:b'')) sample_uuid 2000 2001 NoFault (sample_store, Map.empty)
      = ((StatusForbidden, errorResponse ''principal_mismatch'' ''principal not authorised for this volume''),
         (sample_store, Map.empty)) \<and>
   map_option Volume.OwnerPrincipal (volumes sample_store ''vol-0000000a'') = Some ''service:a'' \<and>
   handleAttachVolume sample_json sample_tokens (Some ''service:a'') ''vol-0000000a''
      (Decoded (sample_attach_request ''service:b'')) sample_uuid 2000 2001 NoFault (sample_store, Map.empty)
      = ((StatusForbidden, errorResponse ''principal_mismatch'' ''principal not authorised for this volume''),
         (sample_store, Map.empty))"
  by (simp add: handleAttachVolume_eq sample_tokens_def sample_store_def sample_volume_def
        sample_attach_request_def principalMismatch_def respondError_def respondJSON_def)

text \<open>
  Claim C10, at the input where the code departs from it. The volume exists and is owned by
  \<open>service:a\<close>; an attach request authenticated as \<open>service:b\<close> whose body names
  \<open>service:a\<close> is answered with status 200 and the attached record, not with
  \<open>principal_mismatch\<close>: the token's principal is never compared with the owner when the
  body names a principal.
\<close>

theorem attach_by_non_owner_succeeds:
  "map_option Volume.OwnerPrincipal (volumes sample_store ''vol-0000000a'') = Some ''service:a'' \<and>
   fst (handleAttachVolume sample_json sample_tokens (Some ''service:b'') ''vol-0000000a''
      (Decoded (sample_attach_request ''service:a'')) sample_uuid 2000 2001 NoFault (sample_store, Map.empty))
     = (StatusOK,
        VolumeJSON ((sample_volume ''vol-0000000a'' ''service:a'' 1600)
          \<lparr>MountHandle := \<lparr>Mode = ''fs'', HostPath = ''/run/aionfs/mounts/vol-0000000a'', State = ''attached''\<rparr>,
           AttachState := ''attached'',
           AttachSession := Some \<lparr>Session.SessionID = ''sess-4d3c9b1e'', Session.Principal = ''service:a'',
                                   Session.ConsumerEndpoint = ''podman://piccolod/app1'', AttachedAt = 2000\<rparr>,
           UpdatedAt := 2001\<rparr>))"
  by (simp add: handleAttachVolume_eq sample_tokens_def sample_store_def sample_volume_def
        sample_attach_request_def putResponse_def PutVolume_def flushLocked_def sample_json_def
        attachedVolume_def respondJSON_def IsZero_def Let_def ToLower_def sample_uuid_def)

text \<open>
  Existence is checked before ownership: for an id that is not in the registry every
  handler that looks the volume up answers \<open>not_found\<close>, whoever asks.
\<close>

lemma absent_volume_not_found:
  assumes "volumes (fst st) vid = None"
  shows "handleGetVolume tokens (Some B) vid (fst st) = notFound"
    and "handleDeleteVolume js (Some tk) (Some B) vid ft st = (notFound, st)"
    and "handleCreateSnapshot js tokens (Some B) vid sbody uuid now ft st = (notFound, st)"
    and "dbody \<noteq> DecodeError \<Longrightarrow> handleDetachVolume js tokens (Some B) vid dbody now ft st = (notFound, st)"
    and "handleAttachVolume js tokens (Some B) vid (Decoded areq) uuid attachedAt now ft st = (notFound, st)"
  using assms
  by (simp_all add: handleGetVolume_eq handleDeleteVolume_eq handleCreateSnapshot_eq handleDetachVolume_eq
        handleAttachVolume_eq)

section \<open>Detach\<close>

lemma stored_detached_fields:
  "AttachState (stored now x (detachedVolume v)) = ''available''"
  "AttachSession (stored now x (detachedVolume v)) = None"
  "State (MountHandle (stored now x (detachedVolume v))) = ''available''"
  "Volume.VolumeID (stored now x (detachedVolume v)) = Volume.VolumeID v"
  "Volume.OwnerPrincipal (stored now x (detachedVolume v)) = Volume.OwnerPrincipal v"
  by (simp_all add: stored_def detachedVolume_def)

lemma detached_twice:
  "detachedVolume (stored now x (detachedVolume v)) = stored now x (detachedVolume v)"
  by (simp add: stored_def detachedVolume_def)

text \<open>
  Claim C6, as amended. Detach of an unknown id answers \<open>not_found\<close>. For an existing volume
  whose record carries the id it is stored under, a caller allowed to detach it (no token
  provider, or the owner) and a body that decodes or is empty, detach from any state leaves
  the volume with \<open>attach_state = available\<close> and no session. It answers 200 with that record
  when the flush of the request succeeds, and 500 \<open>store_error\<close> with the error of the flush
  when it does not. A second detach stores the same record again with \<open>updated_at\<close>
  refreshed (and \<open>created_at\<close> kept unless it was still the zero time), and answers 200
  with it when its flush succeeds.
\<close>

theorem detach_idempotent:
  assumes "volumes (fst st) vid = Some vol" and "Volume.VolumeID vol = vid"
    and "tokens = None \<or> ctx = Some (Volume.OwnerPrincipal vol)"
    and "body \<noteq> DecodeError" and "body' \<noteq> DecodeError"
  shows
   "(volumes (fst st0) vid0 = None \<longrightarrow>
       handleDetachVolume js tokens ctx vid0 body now ft st0 = (notFound, st0)) \<and>
    volumes (fst (snd (handleDetachVolume js tokens ctx vid body now ft st))) vid
       = Some (stored now (Some vol) (detachedVolume vol)) \<and>
    AttachState (stored now (Some vol) (detachedVolume vol)) = ''available'' \<and>
    AttachSession (stored now (Some vol) (detachedVolume vol)) = None \<and>
    (flush_succeeds js ft (fst (snd (handleDetachVolume js tokens ctx vid body now ft st))) (snd st) \<longrightarrow>
       fst (handleDetachVolume js tokens ctx vid body now ft st)
         = respondJSON StatusOK (VolumeJSON (stored now (Some vol) (detachedVolume vol)))) \<and>
    (\<not> flush_succeeds js ft (fst (snd (handleDetachVolume js tokens ctx vid body now ft st))) (snd st) \<longrightarrow>
       (\<exists>err. fst (flushLocked js ft (fst (snd (handleDetachVolume js tokens ctx vid body now ft st))) (snd st))
                 = Some err \<and>
              fst (handleDetachVolume js tokens ctx vid body now ft st)
                 = respondError StatusInternalServerError ''store_error'' (Error err))) \<and>
    volumes (fst (snd (handleDetachVolume js tokens ctx vid body' now' ft'
               (snd (handleDetachVolume js tokens ctx vid body now ft st))))) vid
       = Some ((stored now (Some vol) (detachedVolume vol))
                 \<lparr>UpdatedAt := now',
                  Volume.CreatedAt := (if IsZero (Volume.CreatedAt (stored now (Some vol) (detachedVolume vol)))
                                       then now' else Volume.CreatedAt (stored now (Some vol) (detachedVolume vol)))\<rparr>) \<and>
    (flush_succeeds js ft'
        (fst (snd (handleDetachVolume js tokens ctx vid body' now' ft'
               (snd (handleDetachVolume js tokens ctx vid body now ft st)))))
        (snd (snd (handleDetachVolume js tokens ctx vid body now ft st))) \<longrightarrow>
       fst (handleDetachVolume js tokens ctx vid body' now' ft'
               (snd (handleDetachVolume js tokens ctx vid body now ft st)))
         = respondJSON StatusOK (VolumeJSON ((stored now (Some vol) (detachedVolume vol))
                 \<lparr>UpdatedAt := now',
                  Volume.CreatedAt := (if IsZero (Volume.CreatedAt (stored now (Some vol) (detachedVolume vol)))
                                       then now' else Volume.CreatedAt (stored now (Some vol) (detachedVolume vol)))\<rparr>)))"
proof -
  let ?r = "handleDetachVolume js tokens ctx vid body now ft st"
  let ?v1 = "stored now (Some vol) (detachedVolume vol)"
  let ?r2 = "handleDetachVolume js tokens ctx vid body' now' ft' (snd ?r)"
  let ?v2 = "?v1\<lparr>UpdatedAt := now',
                  Volume.CreatedAt := (if IsZero (Volume.CreatedAt ?v1) then now' else Volume.CreatedAt ?v1)\<rparr>"
  have eq1: "?r = putResponse StatusOK (PutVolume js now ft (detachedVolume vol) st)"
    using assms by (auto simp: handleDetachVolume_eq)
  have idv: "Volume.VolumeID (detachedVolume vol) = vid"
    using assms(2) by (simp add: detachedVolume_def)
  have st1: "volumes (fst (snd ?r)) vid = Some ?v1"
    unfolding eq1 using assms(1) by (simp add: PutVolume_state idv)
  have res1: "fst ?r = (case fst (flushLocked js ft (fst (snd ?r)) (snd st)) of
                 None \<Rightarrow> respondJSON StatusOK (VolumeJSON ?v1)
               | Some err \<Rightarrow> respondError StatusInternalServerError ''store_error'' (Error err))"
    unfolding eq1 using assms(1) by (simp add: putResponse_result idv cong: option.case_cong)
  have ok: "fst ?r = respondJSON StatusOK (VolumeJSON ?v1)"
    if "flush_succeeds js ft (fst (snd ?r)) (snd st)"
    using that res1 by (simp add: flush_succeeds_def)
  have bad: "\<exists>err. fst (flushLocked js ft (fst (snd ?r)) (snd st)) = Some err \<and>
              fst ?r = respondError StatusInternalServerError ''store_error'' (Error err)"
    if "\<not> flush_succeeds js ft (fst (snd ?r)) (snd st)"
  proof -
    from that obtain err where e: "fst (flushLocked js ft (fst (snd ?r)) (snd st)) = Some err"
      by (auto simp: flush_succeeds_def)
    with res1 have "fst ?r = respondError StatusInternalServerError ''store_error'' (Error err)"
      by simp
    with e show ?thesis by blast
  qed
  have own: "tokens = None \<or> ctx = Some (Volume.OwnerPrincipal ?v1)"
    using assms(3) by (simp add: stored_detached_fields)
  have eq2: "?r2 = putResponse StatusOK (PutVolume js now' ft' (detachedVolume ?v1) (snd ?r))"
    using st1 own assms(5) by (auto simp: handleDetachVolume_eq)
  have idv1: "Volume.VolumeID ?v1 = vid"
    using assms(2) by (simp add: stored_detached_fields)
  have v2: "stored now' (Some ?v1) ?v1 = ?v2"
    by (simp add: stored_def)
  have st2: "volumes (fst (snd ?r2)) vid = Some ?v2"
    unfolding eq2 detached_twice using st1
    by (simp add: PutVolume_state idv1 v2)
  have res2: "fst ?r2 = (case fst (flushLocked js ft' (fst (snd ?r2)) (snd (snd ?r))) of
                 None \<Rightarrow> respondJSON StatusOK (VolumeJSON ?v2)
               | Some err \<Rightarrow> respondError StatusInternalServerError ''store_error'' (Error err))"
    unfolding eq2 detached_twice using st1 by (simp add: putResponse_result idv1 v2 cong: option.case_cong)
  have ok2: "fst ?r2 = respondJSON StatusOK (VolumeJSON ?v2)"
    if "flush_succeeds js ft' (fst (snd ?r2)) (snd (snd ?r))"
    using that res2 by (simp add: flush_succeeds_def)
  have nf: "handleDetachVolume js tokens ctx vid0 body now ft st0 = (notFound, st0)"
    if "volumes (fst st0) vid0 = None"
    using that assms(4) by (simp add: handleDetachVolume_eq)
  have av: "AttachState ?v1 = ''available''" "AttachSession ?v1 = None"
    by (simp_all add: stored_detached_fields)
  show ?thesis
    using nf st1 av ok bad st2 ok2 by blast
qed

theorem detach_idempotent_witness:
  "volumes (fst (sample_store, Map.empty)) ''vol-0000000a'' = Some (sample_volume ''vol-0000000a'' ''service:a'' 1600) \<and>
   Volume.VolumeID (sample_volume ''vol-0000000a'' ''service:a'' 1600) = ''vol-0000000a'' \<and>
   (sample_tokens = None \<or>
      Some ''service:a'' = Some (Volume.OwnerPrincipal (sample_volume ''vol-0000000a'' ''service:a'' 1600))) \<and>
   (EOF :: detachRequest decoded) \<noteq> DecodeError \<and>
   volumes (fst (sample_store, Map.empty)) ''vol-0000000c'' = None \<and>
   flush_succeeds sample_json NoFault
     (fst (snd (handleDetachVolume sample_json sample_tokens (Some ''service:a'') ''vol-0000000a'' EOF 2000 NoFault
        (sample_store, Map.empty)))) (snd (sample_store, Map.empty)) \<and>
   \<not> flush_succeeds sample_json (RenameFails ''device busy'')
     (fst (snd (handleDetachVolume sample_json sample_tokens (Some ''service:a'') ''vol-0000000a'' EOF 2000
        (RenameFails ''device busy'') (sample_store, Map.empty)))) (snd (sample_store, Map.empty)) \<and>
   handleDetachVolume sample_json sample_tokens (Some ''service:a'') ''vol-0000000c'' EOF 2000 NoFault (sample_store, Map.empty)
     = (notFound, (sample_store, Map.empty)) \<and>
   fst (handleDetachVolume sample_json sample_tokens (Some ''service:a'') ''vol-0000000a'' EOF 2000 NoFault (sample_store, Map.empty))
     = (StatusOK, VolumeJSON ((sample_volume ''vol-0000000a'' ''service:a'' 1600)\<lparr>UpdatedAt := 2000\<rparr>)) \<and>
   fst (fst (handleDetachVolume sample_json sample_tokens (Some ''service:a'') ''vol-0000000a'' EOF 2000
        (RenameFails ''device busy'') (sample_store, Map.empty))) = StatusInternalServerError \<and>
   volumes (fst (snd (handleDetachVolume sample_json sample_tokens (Some ''service:a'') ''vol-0000000a'' EOF 2001 NoFault
               (snd (handleDetachVolume sample_json sample_tokens (Some ''service:a'') ''vol-0000000a'' EOF 2000 NoFault
                  (sample_store, Map.empty)))))) ''vol-0000000a''
     = Some ((sample_volume ''vol-0000000a'' ''service:a'' 1600)\<lparr>UpdatedAt := 2001\<rparr>) \<and>
   fst (handleDetachVolume sample_json sample_tokens (Some ''service:a'') ''vol-0000000a'' EOF 2001 NoFault
               (snd (handleDetachVolume sample_json sample_tokens (Some ''service:a'') ''vol-0000000a'' EOF 2000 NoFault
                  (sample_store, Map.empty))))
     = (StatusOK, VolumeJSON ((sample_volume ''vol-0000000a'' ''service:a'' 1600)\<lparr>UpdatedAt := 2001\<rparr>))"
proof -
  have h: "volumes (fst (sample_store, Map.empty :: files)) ''vol-0000000a'' = Some (sample_volume ''vol-0000000a'' ''service:a'' 1600)"
    "Volume.VolumeID (sample_volume ''vol-0000000a'' ''service:a'' 1600) = ''vol-0000000a''"
    "sample_tokens = None \<or> Some ''service:a'' = Some (Volume.OwnerPrincipal (sample_volume ''vol-0000000a'' ''service:a'' 1600))"
    "(EOF :: detachRequest decoded) \<noteq> DecodeError" "(EOF :: detachRequest decoded) \<noteq> DecodeError"
    by (simp_all add: sample_store_def sample_volume_def)
  have n: "volumes (fst (sample_store, Map.empty :: files)) ''vol-0000000c'' = None"
    by (simp add: sample_store_def)
  have f: "flush_succeeds sample_json NoFault s d" for s d
    by (simp add: flush_succeeds_def flushLocked_def sample_json_def)
  have g: "\<not> flush_succeeds sample_json (RenameFails ''device busy'') s d" for s d
    by (simp add: flush_succeeds_def flushLocked_def sample_json_def)
  show ?thesis
    using detach_idempotent[OF h, where js = sample_json and ft = NoFault and now = 2000 and now' = 2001
        and ft' = NoFault and ?st0.0 = "(sample_store, Map.empty)" and ?vid0.0 = "''vol-0000000c''"]
      detach_idempotent[OF h, where js = sample_json and ft = "RenameFails ''device busy''" and now = 2000 and now' = 2001
        and ft' = NoFault and ?st0.0 = "(sample_store, Map.empty)" and ?vid0.0 = "''vol-0000000c''"]
      h n f g
    by (auto simp: stored_def detachedVolume_def sample_volume_def respondJSON_def respondError_def IsZero_def)
qed

text \<open>
  Claim C6 as stated fails twice. With a token provider, detach of an existing volume by a
  principal that does not own it fails with \<open>principal_mismatch\<close>: not-found is not the only
  failure. And a second detach does change the record: its \<open>updated_at\<close> moves from 2000 to
  2001.
\<close>

theorem detach_counterexample:
  "volumes sample_store ''vol-0000000a'' = Some (sample_volume ''vol-0000000a'' ''service:a'' 1600) \<and>
   handleDetachVolume sample_json sample_tokens (Some ''service:b'') ''vol-0000000a'' EOF 2000 NoFault (sample_store, Map.empty)
     = ((StatusForbidden, errorResponse ''principal_mismatch'' ''principal not authorised for this volume''),
        (sample_store, Map.empty)) \<and>
   map_option UpdatedAt (volumes (fst (snd (handleDetachVolume sample_json None None ''vol-0000000a'' EOF 2000 NoFault
                  (sample_store, Map.empty)))) ''vol-0000000a'') = Some 2000 \<and>
   map_option UpdatedAt (volumes (fst (snd (handleDetachVolume sample_json None None ''vol-0000000a'' EOF 2001 NoFault
               (snd (handleDetachVolume sample_json None None ''vol-0000000a'' EOF 2000 NoFault
                  (sample_store, Map.empty)))))) ''vol-0000000a'') = Some 2001"
proof -
  have a: "volumes sample_store ''vol-0000000a'' = Some (sample_volume ''vol-0000000a'' ''service:a'' 1600)"
    by (simp add: sample_store_def)
  have b: "handleDetachVolume sample_json sample_tokens (Some ''service:b'') ''vol-0000000a'' EOF 2000 NoFault (sample_store, Map.empty)
     = ((StatusForbidden, errorResponse ''principal_mismatch'' ''principal not authorised for this volume''),
        (sample_store, Map.empty))"
    by (simp add: handleDetachVolume_eq a sample_tokens_def sample_volume_def principalMismatch_def
          respondError_def respondJSON_def)
  have c: "volumes (fst (snd (handleDetachVolume sample_json None None ''vol-0000000a'' EOF 2000 NoFault
                  (sample_store, Map.empty)))) ''vol-0000000a''
            = Some ((sample_volume ''vol-0000000a'' ''service:a'' 1600)\<lparr>UpdatedAt := 2000\<rparr>)"
    by (simp add: handleDetachVolume_eq a PutVolume_state stored_def detachedVolume_def sample_volume_def IsZero_def)
  have d: "volumes (fst (snd (handleDetachVolume sample_json None None ''vol-0000000a'' EOF 2001 NoFault
               (snd (handleDetachVolume sample_json None None ''vol-0000000a'' EOF 2000 NoFault
                  (sample_store, Map.empty)))))) ''vol-0000000a''
            = Some ((sample_volume ''vol-0000000a'' ''service:a'' 1600)\<lparr>UpdatedAt := 2001\<rparr>)"
    by (simp add: handleDetachVolume_eq[where now = 2001] c PutVolume_state)
       (simp add: stored_def detachedVolume_def sample_volume_def IsZero_def)
  show ?thesis using a b c d by simp
qed

section \<open>Persistence\<close>






section \<open>Checkpoints\<close>

lemma LatestSnapshot_None: "LatestSnapshot s vid = None \<longleftrightarrow> snaps_of s vid = []"
  by (simp add: LatestSnapshot_def Let_def)

lemma LatestSnapshot_Some: "LatestSnapshot s vid = Some x \<Longrightarrow> snaps_of s vid \<noteq> [] \<and> x = last (snaps_of s vid)"
  by (auto simp: LatestSnapshot_def Let_def last_conv_nth split: if_splits)

lemma AddSnapshot_Inr:
  assumes "AddSnapshot js ft vid snap st = (Inr created, st')"
  shows "created = snap"
    and "snaps_of (fst st') vid = snaps_of (fst st) vid @ [snap]"
    and "\<And>x. x \<noteq> vid \<Longrightarrow> snaps_of (fst st') x = snaps_of (fst st) x"
    and "cp (fst st') = cp (fst st)"
  using assms
  by (cases st; auto simp: AddSnapshot_def Let_def snaps_of_def split: option.splits prod.splits)+

lemma checkpointLoop_result:
  "checkpointLoop js auth caller gen i vids acc st = (Inr ids, st') \<Longrightarrow>
     ids = acc @ map (\<lambda>vid. SnapshotID (last (snaps_of (fst st') vid))) vids \<and>
     (\<forall>vid \<in> set vids. snaps_of (fst st) vid = [] \<longrightarrow> length (snaps_of (fst st') vid) = 1) \<and>
     (\<forall>vid. snaps_of (fst st) vid \<noteq> [] \<or> vid \<notin> set vids \<longrightarrow>
            snaps_of (fst st') vid = snaps_of (fst st) vid) \<and>
     cp (fst st') = cp (fst st)"
proof (induction vids arbitrary: i acc st)
  case Nil
  then show ?case by simp
next
  case (Cons vid rest)
  from Cons.prems obtain vol where vol: "GetVolume (fst st) vid = Inr vol"
    by (cases "GetVolume (fst st) vid") auto
  from Cons.prems vol have na: "\<not> (auth \<and> Volume.OwnerPrincipal vol \<noteq> caller)"
    by (auto split: if_splits)
  show ?case
  proof (cases "LatestSnapshot (fst st) vid")
    case (Some latest)
    with Cons.prems vol na
    have rec: "checkpointLoop js auth caller gen (Suc i) rest (acc @ [SnapshotID latest]) st = (Inr ids, st')"
      by auto
    note ih = Cons.IH[OF rec]
    from LatestSnapshot_Some[OF Some] have ne: "snaps_of (fst st) vid \<noteq> []"
      and l: "latest = last (snaps_of (fst st) vid)" by auto
    from ih ne have same: "snaps_of (fst st') vid = snaps_of (fst st) vid" by blast
    show ?thesis
      using ih ne l same by auto
  next
    case None
    then have em: "snaps_of (fst st) vid = []" by (simp add: LatestSnapshot_None)
    obtain uuid now ft where g: "gen i = (uuid, now, ft)" by (cases "gen i")
    let ?snap = "\<lparr>SnapshotID = ''snap-'' @ ToLower (take 8 uuid),
                          Snapshot.VolumeID = vid,
                          Snapshot.CreatedAt = now,
                          Snapshot.Note = ''auto-generated for checkpoint''\<rparr>"
    obtain r1 st1 where a: "AddSnapshot js ft vid ?snap st = (r1, st1)"
      by (cases "AddSnapshot js ft vid ?snap st")
    from Cons.prems vol na None g a obtain created where r1: "r1 = Inr created"
      by (cases r1) auto
    with Cons.prems vol na None g a
    have rec: "checkpointLoop js auth caller gen (Suc i) rest (acc @ [SnapshotID created]) st1 = (Inr ids, st')"
      by auto
    note ih = Cons.IH[OF rec]
    note add = AddSnapshot_Inr[OF a[unfolded r1]]
    have one: "snaps_of (fst st1) vid = [?snap]" using add(2) em by simp
    with ih have fin: "snaps_of (fst st') vid = [?snap]" by auto
    have other: "snaps_of (fst st1) x = snaps_of (fst st) x" if "x \<noteq> vid" for x
      using add(3)[OF that] .
    have c1: "ids = acc @ map (\<lambda>vid. SnapshotID (last (snaps_of (fst st') vid))) (vid # rest)"
      using ih fin add(1) by simp
    have c2: "\<forall>x \<in> set (vid # rest). snaps_of (fst st) x = [] \<longrightarrow> length (snaps_of (fst st') x) = 1"
    proof (intro ballI impI)
      fix x assume x: "x \<in> set (vid # rest)" and e: "snaps_of (fst st) x = []"
      show "length (snaps_of (fst st') x) = 1"
      proof (cases "x = vid")
        case True then show ?thesis using fin by simp
      next
        case False
        with x have "x \<in> set rest" by simp
        moreover from False e have "snaps_of (fst st1) x = []" by (simp add: other)
        ultimately show ?thesis using ih by blast
      qed
    qed
    have c3: "\<forall>x. snaps_of (fst st) x \<noteq> [] \<or> x \<notin> set (vid # rest) \<longrightarrow>
            snaps_of (fst st') x = snaps_of (fst st) x"
    proof (intro allI impI)
      fix x assume x: "snaps_of (fst st) x \<noteq> [] \<or> x \<notin> set (vid # rest)"
      with em have nv: "x \<noteq> vid" by auto
      with x have "snaps_of (fst st1) x \<noteq> [] \<or> x \<notin> set rest" by (auto simp: other)
      with ih have "snaps_of (fst st') x = snaps_of (fst st1) x" by blast
      with nv show "snaps_of (fst st') x = snaps_of (fst st) x" by (simp add: other)
    qed
    have c4: "cp (fst st') = cp (fst st)" using ih add(4) by simp
    from c1 c2 c3 c4 show ?thesis by blast
  qed
qed

lemma putManifest_Created:
  assumes "putManifest js g req ids st = ((StatusCreated, p), st')"
  shows "\<exists>m. p = CheckpointJSON m \<and> SnapshotIDs m = ids \<and> cp (fst st') (ManifestID m) = Some m \<and>
             snaps (fst st') = snaps (fst st)"
proof -
  obtain uuid now ft where g: "g = (uuid, now, ft)" by (cases g)
  let ?m = "\<lparr>ManifestID = ''chk-'' @ ToLower (take 8 uuid), SnapshotIDs = ids,
                 Checkpoint.CreatedAt = now, Checkpoint.Note = createCheckpointRequest.Note req\<rparr>"
  obtain r st1 where pc: "PutCheckpoint js ft ?m st = (r, st1)" by (cases "PutCheckpoint js ft ?m st")
  from assms g pc obtain m where r: "r = Inr m" and p: "p = CheckpointJSON m" and st1: "st1 = st'"
    by (cases r) (auto simp: putManifest_def respondError_def respondJSON_def)
  from pc r have "m = ?m \<and> cp (fst st1) (ManifestID ?m) = Some ?m \<and> snaps (fst st1) = snaps (fst st)"
    by (cases st) (auto simp: PutCheckpoint_def Let_def split: option.splits prod.splits)
  with p st1 show ?thesis by auto
qed

lemma checkpointLoop_error:
  "checkpointLoop js auth caller gen i vids acc st = (Inl resp, st') \<Longrightarrow>
     fst resp \<in> {StatusBadRequest, StatusForbidden, StatusInternalServerError}"
proof (induction vids arbitrary: i acc st)
  case Nil
  then show ?case by simp
next
  case (Cons vid rest)
  show ?case
  proof (cases "GetVolume (fst st) vid")
    case (Inl e)
    with Cons.prems show ?thesis by (auto simp: respondError_def respondJSON_def)
  next
    case (Inr vol)
    show ?thesis
    proof (cases "auth \<and> Volume.OwnerPrincipal vol \<noteq> caller")
      case True
      with Cons.prems Inr show ?thesis by (auto simp: respondError_def respondJSON_def)
    next
      case False
      show ?thesis
      proof (cases "LatestSnapshot (fst st) vid")
        case (Some latest)
        with Cons.prems Inr False
        have "checkpointLoop js auth caller gen (Suc i) rest (acc @ [SnapshotID latest]) st = (Inl resp, st')"
          by auto
        from Cons.IH[OF this] show ?thesis .
      next
        case None
        obtain uuid now ft where g: "gen i = (uuid, now, ft)" by (cases "gen i")
        let ?snap = "\<lparr>SnapshotID = ''snap-'' @ ToLower (take 8 uuid),
                          Snapshot.VolumeID = vid,
                          Snapshot.CreatedAt = now,
                          Snapshot.Note = ''auto-generated for checkpoint''\<rparr>"
        obtain r1 st1 where a: "AddSnapshot js ft vid ?snap st = (r1, st1)"
          by (cases "AddSnapshot js ft vid ?snap st")
        show ?thesis
        proof (cases r1)
          case (Inl e)
          with Cons.prems Inr False None g a show ?thesis
            by (auto simp: respondError_def respondJSON_def)
        next
          case r1: (Inr created)
          with Cons.prems Inr False None g a
          have "checkpointLoop js auth caller gen (Suc i) rest (acc @ [SnapshotID created]) st1 = (Inl resp, st')"
            by auto
          from Cons.IH[OF this] show ?thesis .
        qed
      qed
    qed
  qed
qed

text \<open>
  Claim C4. When a create-checkpoint request succeeds (status 201), the manifest it stores
  and returns lists, in the order of the requested volumes, the id of the last snapshot of
  each. A requested volume that had no snapshot before has exactly one afterwards, created
  by the request, and that one's id is in the manifest; a requested volume that had
  snapshots keeps its history as it was and the manifest has the id of its latest
  snapshot. The histories of all other volumes are unchanged.
\<close>

theorem checkpoint_snapshot_reuse:
  assumes "handleCreateCheckpoint js tokens ctx (Decoded req) ord gen st = ((StatusCreated, p), st')"
  shows "\<exists>m. p = CheckpointJSON m \<and> cp (fst st') (ManifestID m) = Some m \<and>
           SnapshotIDs m =
             map (\<lambda>vid. SnapshotID (last (snaps_of (fst st') vid)))
                 (checkpointVolumeIDs tokens ctx ord (fst st) req) \<and>
           (\<forall>vid \<in> set (checkpointVolumeIDs tokens ctx ord (fst st) req).
               (snaps_of (fst st) vid = [] \<longrightarrow> length (snaps_of (fst st') vid) = 1) \<and>
               (snaps_of (fst st) vid \<noteq> [] \<longrightarrow>
                  snaps_of (fst st') vid = snaps_of (fst st) vid \<and>
                  SnapshotID (last (snaps_of (fst st') vid)) = SnapshotID (last (snaps_of (fst st) vid)))) \<and>
           (\<forall>vid. vid \<notin> set (checkpointVolumeIDs tokens ctx ord (fst st) req) \<longrightarrow>
               snaps_of (fst st') vid = snaps_of (fst st) vid)"
proof -
  let ?vids = "checkpointVolumeIDs tokens ctx ord (fst st) req"
  obtain r st1 where loop:
    "checkpointLoop js (tokens \<noteq> None) (fst (principalFromContext ctx)) gen 0 ?vids [] st = (r, st1)"
    by (cases "checkpointLoop js (tokens \<noteq> None) (fst (principalFromContext ctx)) gen 0 ?vids [] st")
  from assms have na: "\<not> (tokens \<noteq> None \<and> ctx = None)"
    by (auto simp: handleCreateCheckpoint_eq unauthorized_def respondError_def respondJSON_def
          split: if_splits)
  have eq: "handleCreateCheckpoint js tokens ctx (Decoded req) ord gen st =
              (case r of Inl resp \<Rightarrow> (resp, st1)
                       | Inr ids \<Rightarrow> putManifest js (gen (length ?vids)) req ids st1)"
    unfolding handleCreateCheckpoint_eq loop using na by (cases r) auto
  obtain ids where r: "r = Inr ids"
    and pm: "putManifest js (gen (length ?vids)) req ids st1 = ((StatusCreated, p), st')"
  proof (cases r)
    case (Inl resp)
    with assms eq have "resp = (StatusCreated, p)" by simp
    with checkpointLoop_error[OF loop[unfolded Inl]] show ?thesis by simp
  next
    case (Inr ids)
    with assms eq that show ?thesis by simp
  qed
  from putManifest_Created[OF pm] obtain m where
    m: "p = CheckpointJSON m" "SnapshotIDs m = ids" "cp (fst st') (ManifestID m) = Some m"
    and sn: "snaps (fst st') = snaps (fst st1)"
    by blast
  from sn have so: "snaps_of (fst st') = snaps_of (fst st1)"
    by (auto simp: snaps_of_def fun_eq_iff)
  note res = checkpointLoop_result[OF loop[unfolded r]]
  show ?thesis
    using m res unfolding so by auto
qed

lemma sample_lower: "ToLower (take 8 sample_uuid) = ''4d3c9b1e''"
  by (simp add: ToLower_def sample_uuid_def)

lemma sample_checkpoint_eval:
  "handleCreateCheckpoint sample_json None None (Decoded sample_checkpoint_request) [] sample_gen
     (fresh_store, Map.empty)
   = ((StatusCreated, CheckpointJSON sample_manifest),
      (checkpointed_store, [''data/state.json'' \<mapsto> ''sample-state'']))"
  by (simp add: handleCreateCheckpoint_eq checkpointVolumeIDs_def sample_checkpoint_request_def
        principalFromContext_def GetVolume_def LatestSnapshot_def snaps_of_def AddSnapshot_def
        fresh_store_def sample_store_def sample_gen_def sample_lower flushLocked_def sample_json_def
        putManifest_def PutCheckpoint_def respondJSON_def Let_def sample_manifest_def
        checkpointed_store_def auto_snapshot_def sample_snapshot_def)

lemma sample_checkpoint_again_eval:
  "handleCreateCheckpoint sample_json None None (Decoded sample_checkpoint_request) [] sample_gen
     (checkpointed_store, [''data/state.json'' \<mapsto> ''sample-state''])
   = ((StatusCreated, CheckpointJSON sample_manifest),
      (checkpointed_store, [''data/state.json'' \<mapsto> ''sample-state'']))"
  by (simp add: handleCreateCheckpoint_eq checkpointVolumeIDs_def sample_checkpoint_request_def
        principalFromContext_def GetVolume_def LatestSnapshot_def snaps_of_def AddSnapshot_def
        fresh_store_def sample_store_def sample_gen_def sample_lower flushLocked_def sample_json_def
        putManifest_def PutCheckpoint_def respondJSON_def Let_def sample_manifest_def
        checkpointed_store_def auto_snapshot_def sample_snapshot_def)

theorem checkpoint_snapshot_reuse_witness:
  "handleCreateCheckpoint sample_json None None (Decoded sample_checkpoint_request) [] sample_gen
     (fresh_store, Map.empty)
   = ((StatusCreated, CheckpointJSON sample_manifest),
      (checkpointed_store, [''data/state.json'' \<mapsto> ''sample-state''])) \<and>
   snaps_of fresh_store ''vol-0000000a'' = [] \<and>
   snaps_of checkpointed_store ''vol-0000000a'' = [auto_snapshot] \<and>
   snaps_of checkpointed_store ''vol-0000000b'' = snaps_of fresh_store ''vol-0000000b'' \<and>
   SnapshotIDs sample_manifest = [SnapshotID auto_snapshot, ''snap-000000b1''] \<and>
   handleCreateCheckpoint sample_json None None (Decoded sample_checkpoint_request) [] sample_gen
     (checkpointed_store, [''data/state.json'' \<mapsto> ''sample-state''])
   = ((StatusCreated, CheckpointJSON sample_manifest),
      (checkpointed_store, [''data/state.json'' \<mapsto> ''sample-state'']))"
  using checkpoint_snapshot_reuse[OF sample_checkpoint_eval]
        checkpoint_snapshot_reuse[OF sample_checkpoint_again_eval]
        sample_checkpoint_eval sample_checkpoint_again_eval
  by (simp add: snaps_of_def fresh_store_def checkpointed_store_def sample_manifest_def auto_snapshot_def)

section \<open>Listing checkpoints\<close>

lemma map_filter_set:
  "range_order m ord \<Longrightarrow> set (List.map_filter m ord) = ran m"
proof -
  assume "range_order m ord"
  then have d: "set ord = dom m" by (simp add: range_order_def)
  have "set (List.map_filter m ord) = {y. \<exists>x. x \<in> set ord \<and> m x = Some y}"
    by (induction ord) (auto simp: List.map_filter_simps split: option.splits)
  also have "\<dots> = ran m" unfolding d ran_def by auto
  finally show ?thesis .
qed

lemma find_Some_holds: "List.find P xs = Some x \<Longrightarrow> P x"
  by (induction xs) (auto split: if_splits)

lemma list_ex_snapshot_ids:
  "list_ex (\<lambda>snap. SnapshotID snap = sid) (snaps_of s vid) \<longleftrightarrow> sid \<in> snapshot_ids s vid"
  unfolding snapshot_ids_def list_ex_iff by blast

lemma VolumeIDForSnapshot_Some:
  "VolumeIDForSnapshot ord s sid = Some vid \<Longrightarrow> sid \<in> snapshot_ids s vid"
  unfolding VolumeIDForSnapshot_def list_ex_snapshot_ids by (rule find_Some_holds)

lemma VolumeIDForSnapshot_None:
  assumes "range_order (snaps s) ord" and "VolumeIDForSnapshot ord s sid = None"
  shows "\<not> known_snapshot s sid"
proof
  assume "known_snapshot s sid"
  then obtain vid where k: "sid \<in> snapshot_ids s vid" unfolding known_snapshot_def by blast
  then have "snaps_of s vid \<noteq> []" by (auto simp: snapshot_ids_def)
  then have "vid \<in> dom (snaps s)" by (auto simp: snaps_of_def split: option.splits)
  with assms(1) have "vid \<in> set ord" by (simp add: range_order_def)
  moreover from assms(2) have "\<not> (\<exists>x. x \<in> set ord \<and> sid \<in> snapshot_ids s x)"
    unfolding VolumeIDForSnapshot_def list_ex_snapshot_ids find_None_iff .
  ultimately show False using k by blast
qed

lemma includeManifest_iff:
  assumes "\<forall>j. range_order (snaps s) (ords j)" and "unique_snapshot_ids s"
  shows "includeManifest s ords owned j sids \<longleftrightarrow>
           (\<forall>sid \<in> set sids. \<forall>vid. sid \<in> snapshot_ids s vid \<longrightarrow> vid \<in> owned)"
proof (induction sids arbitrary: j)
  case Nil
  show ?case by simp
next
  case (Cons sid sids)
  have split: "(\<forall>x \<in> set (sid # sids). \<forall>vid. x \<in> snapshot_ids s vid \<longrightarrow> vid \<in> owned) \<longleftrightarrow>
               (\<forall>vid. sid \<in> snapshot_ids s vid \<longrightarrow> vid \<in> owned) \<and>
               (\<forall>x \<in> set sids. \<forall>vid. x \<in> snapshot_ids s vid \<longrightarrow> vid \<in> owned)"
    by simp
  show ?case
  proof (cases "VolumeIDForSnapshot (ords j) s sid")
    case None
    from assms(1) have "range_order (snaps s) (ords j)" by blast
    from VolumeIDForSnapshot_None[OF this None]
    have no: "\<forall>vid. sid \<notin> snapshot_ids s vid" unfolding known_snapshot_def by blast
    have "includeManifest s ords owned j (sid # sids) = includeManifest s ords owned (Suc j) sids"
      using None by simp
    also have "\<dots> \<longleftrightarrow> (\<forall>x \<in> set sids. \<forall>vid. x \<in> snapshot_ids s vid \<longrightarrow> vid \<in> owned)"
      by (rule Cons.IH)
    also have "\<dots> \<longleftrightarrow> (\<forall>x \<in> set (sid # sids). \<forall>vid. x \<in> snapshot_ids s vid \<longrightarrow> vid \<in> owned)"
      unfolding split using no by blast
    finally show ?thesis .
  next
    case (Some vid0)
    from VolumeIDForSnapshot_Some[OF Some] have in0: "sid \<in> snapshot_ids s vid0" .
    with assms(2) have only: "\<forall>vid. sid \<in> snapshot_ids s vid \<longrightarrow> vid = vid0"
      unfolding unique_snapshot_ids_def by blast
    have hd: "(\<forall>vid. sid \<in> snapshot_ids s vid \<longrightarrow> vid \<in> owned) \<longleftrightarrow> vid0 \<in> owned"
      using in0 only by blast
    have "includeManifest s ords owned j (sid # sids) \<longleftrightarrow>
            vid0 \<in> owned \<and> includeManifest s ords owned (Suc j) sids"
      using Some by simp
    also have "\<dots> \<longleftrightarrow> vid0 \<in> owned \<and>
                 (\<forall>x \<in> set sids. \<forall>vid. x \<in> snapshot_ids s vid \<longrightarrow> vid \<in> owned)"
      unfolding Cons.IH ..
    also have "\<dots> \<longleftrightarrow> (\<forall>x \<in> set (sid # sids). \<forall>vid. x \<in> snapshot_ids s vid \<longrightarrow> vid \<in> owned)"
      unfolding split hd ..
    finally show ?thesis .
  qed
qed

lemma allowedManifests_filter:
  assumes "\<forall>i j. range_order (snaps s) (ords i j)" and "unique_snapshot_ids s"
  shows "allowedManifests s ords owned i cs =
           filter (\<lambda>c. \<forall>sid \<in> set (SnapshotIDs c). \<forall>vid. sid \<in> snapshot_ids s vid \<longrightarrow> vid \<in> owned) cs"
proof (induction cs arbitrary: i)
  case Nil
  show ?case by simp
next
  case (Cons c cs)
  from assms(1) have "\<forall>j. range_order (snaps s) (ords i j)" by blast
  from includeManifest_iff[OF this assms(2)] Cons.IH[of "Suc i"]
  show ?case by simp
qed

lemma owned_set:
  assumes "range_order (volumes s) ordv" and "keys_consistent s"
  shows "set (map Volume.VolumeID (ListVolumesByOwner ordv s p)) =
           {vid. \<exists>v. volumes s vid = Some v \<and> Volume.OwnerPrincipal v = p}"
proof -
  have "set (List.map_filter (volumes s) ordv) = ran (volumes s)"
    by (rule map_filter_set[OF assms(1)])
  then have l: "set (ListVolumesByOwner ordv s p) = {v \<in> ran (volumes s). Volume.OwnerPrincipal v = p}"
    by (auto simp: ListVolumesByOwner_def)
  show ?thesis
  proof (intro set_eqI iffI)
    fix vid assume "vid \<in> set (map Volume.VolumeID (ListVolumesByOwner ordv s p))"
    then obtain v where v: "v \<in> ran (volumes s)" "Volume.OwnerPrincipal v = p" "vid = Volume.VolumeID v"
      unfolding set_map l by blast
    from v(1) obtain k where "volumes s k = Some v" unfolding ran_def by blast
    with assms(2) v show "vid \<in> {vid. \<exists>v. volumes s vid = Some v \<and> Volume.OwnerPrincipal v = p}"
      unfolding keys_consistent_def by blast
  next
    fix vid assume "vid \<in> {vid. \<exists>v. volumes s vid = Some v \<and> Volume.OwnerPrincipal v = p}"
    then obtain v where v: "volumes s vid = Some v" "Volume.OwnerPrincipal v = p" by blast
    with assms(2) have "Volume.VolumeID v = vid" unfolding keys_consistent_def by blast
    moreover from v have "v \<in> set (ListVolumesByOwner ordv s p)" unfolding l ran_def by blast
    ultimately show "vid \<in> set (map Volume.VolumeID (ListVolumesByOwner ordv s p))"
      unfolding set_map by blast
  qed
qed

lemma every_known_snapshot_owned_iff:
  "\<forall>sid \<in> set (SnapshotIDs c). known_snapshot s sid \<Longrightarrow>
   every_known_snapshot_owned s p c = every_snapshot_owned s p c"
  by (auto simp: every_known_snapshot_owned_def every_snapshot_owned_def)

text \<open>
  Claim C5, as amended. With a token provider, volumes stored under their own ids and no
  snapshot id in two histories, list-checkpoints returns, whatever the orders in which the
  maps are visited, exactly the stored manifests in which every snapshot id that is in
  some volume's history is in the history of a volume the caller owns, each of them whole.
  A manifest with a snapshot in the history of a volume of another owner, or of a volume
  that is no longer in the registry, is left out; a snapshot id that is in no history at
  all does not count against the manifest.
\<close>

theorem list_checkpoints_filter:
  assumes "tokens \<noteq> None" and "range_order (cp s) ordc" and "range_order (volumes s) ordv"
    and "\<forall>i j. range_order (snaps s) (ords i j)"
    and "keys_consistent s" and "unique_snapshot_ids s"
  shows "handleListCheckpoints tokens (Some p) ordc ordv ords s =
           respondJSON StatusOK
             (CheckpointsJSON (filter (every_known_snapshot_owned s p) (ListCheckpoints ordc s))) \<and>
         set (filter (every_known_snapshot_owned s p) (ListCheckpoints ordc s)) =
           {c \<in> ran (cp s). every_known_snapshot_owned s p c}"
proof -
  let ?owned = "set (map Volume.VolumeID (ListVolumesByOwner ordv s p))"
  have own: "?owned = {vid. \<exists>v. volumes s vid = Some v \<and> Volume.OwnerPrincipal v = p}"
    by (rule owned_set[OF assms(3,5)])
  have pred: "(\<forall>sid \<in> set (SnapshotIDs c). \<forall>vid. sid \<in> snapshot_ids s vid \<longrightarrow> vid \<in> ?owned)
                \<longleftrightarrow> every_known_snapshot_owned s p c" for c
  proof
    assume l: "\<forall>sid \<in> set (SnapshotIDs c). \<forall>vid. sid \<in> snapshot_ids s vid \<longrightarrow> vid \<in> ?owned"
    show "every_known_snapshot_owned s p c"
      unfolding every_known_snapshot_owned_def
    proof (intro ballI impI)
      fix sid assume sid: "sid \<in> set (SnapshotIDs c)" and "known_snapshot s sid"
      then obtain vid where v: "sid \<in> snapshot_ids s vid" unfolding known_snapshot_def by blast
      with l sid have "vid \<in> ?owned" by blast
      with v show "owned_snapshot s p sid" unfolding own owned_snapshot_def by blast
    qed
  next
    assume r: "every_known_snapshot_owned s p c"
    show "\<forall>sid \<in> set (SnapshotIDs c). \<forall>vid. sid \<in> snapshot_ids s vid \<longrightarrow> vid \<in> ?owned"
    proof (intro ballI allI impI)
      fix sid vid assume sid: "sid \<in> set (SnapshotIDs c)" and v: "sid \<in> snapshot_ids s vid"
      then have "known_snapshot s sid" unfolding known_snapshot_def by blast
      with r sid have "owned_snapshot s p sid" unfolding every_known_snapshot_owned_def by blast
      then obtain vid' w where w: "volumes s vid' = Some w" "Volume.OwnerPrincipal w = p"
        "sid \<in> snapshot_ids s vid'" unfolding owned_snapshot_def by blast
      with assms(6) v have "vid' = vid" unfolding unique_snapshot_ids_def by blast
      with w show "vid \<in> ?owned" unfolding own by blast
    qed
  qed
  have "handleListCheckpoints tokens (Some p) ordc ordv ords s =
          respondJSON StatusOK (CheckpointsJSON (allowedManifests s ords ?owned 0 (ListCheckpoints ordc s)))"
    using assms(1) by (simp add: handleListCheckpoints_def principalFromContext_def Let_def)
  also have "allowedManifests s ords ?owned 0 (ListCheckpoints ordc s) =
               filter (every_known_snapshot_owned s p) (ListCheckpoints ordc s)"
    unfolding allowedManifests_filter[OF assms(4,6)] pred ..
  finally have 1: "handleListCheckpoints tokens (Some p) ordc ordv ords s =
           respondJSON StatusOK
             (CheckpointsJSON (filter (every_known_snapshot_owned s p) (ListCheckpoints ordc s)))" .
  have 2: "set (ListCheckpoints ordc s) = ran (cp s)"
    unfolding ListCheckpoints_def by (rule map_filter_set[OF assms(2)])
  from 1 2 show ?thesis by auto
qed

lemma sample_orders:
  "range_order (cp sample_store) [''chk-00000001'', ''chk-00000002'']"
  "range_order (volumes sample_store) [''vol-0000000a'', ''vol-0000000b'']"
  "\<forall>i j. range_order (snaps sample_store) (sample_snap_orders i j)"
  by (auto simp: range_order_def sample_store_def sample_snap_orders_def)

lemma sample_keys_consistent: "keys_consistent sample_store"
  by (auto simp: keys_consistent_def sample_store_def sample_volume_def split: if_splits)

lemma sample_unique_snapshot_ids: "unique_snapshot_ids sample_store"
  by (auto simp: unique_snapshot_ids_def snapshot_ids_def snaps_of_def sample_store_def
        sample_snapshot_def split: if_splits)

lemma sample_list_eval:
  "handleListCheckpoints sample_tokens (Some ''service:a'') [''chk-00000001'', ''chk-00000002'']
      [''vol-0000000a'', ''vol-0000000b''] sample_snap_orders sample_store
    = (StatusOK, CheckpointsJSON [sample_checkpoint ''chk-00000001'' [''snap-000000a1'']])"
  by (simp add: handleListCheckpoints_def principalFromContext_def sample_tokens_def ListCheckpoints_def
        ListVolumesByOwner_def List.map_filter_simps sample_store_def sample_volume_def
        sample_checkpoint_def VolumeIDForSnapshot_def snaps_of_def sample_snapshot_def
        sample_snap_orders_def respondJSON_def Let_def)

theorem list_checkpoints_filter_witness:
  "sample_tokens \<noteq> None \<and>
   range_order (cp sample_store) [''chk-00000001'', ''chk-00000002''] \<and>
   range_order (volumes sample_store) [''vol-0000000a'', ''vol-0000000b''] \<and>
   (\<forall>i j. range_order (snaps sample_store) (sample_snap_orders i j)) \<and>
   keys_consistent sample_store \<and> unique_snapshot_ids sample_store \<and>
   handleListCheckpoints sample_tokens (Some ''service:a'') [''chk-00000001'', ''chk-00000002'']
      [''vol-0000000a'', ''vol-0000000b''] sample_snap_orders sample_store
    = (StatusOK, CheckpointsJSON [sample_checkpoint ''chk-00000001'' [''snap-000000a1'']]) \<and>
   filter (every_known_snapshot_owned sample_store ''service:a'')
      (ListCheckpoints [''chk-00000001'', ''chk-00000002''] sample_store)
    = [sample_checkpoint ''chk-00000001'' [''snap-000000a1'']]"
proof -
  have t: "sample_tokens \<noteq> None" by (simp add: sample_tokens_def)
  show ?thesis
    using list_checkpoints_filter[OF t sample_orders sample_keys_consistent sample_unique_snapshot_ids,
        of "''service:a''"]
      t sample_orders sample_keys_consistent sample_unique_snapshot_ids sample_list_eval
    by (simp add: respondJSON_def)
qed

text \<open>
  Claim C5 as stated fails for a manifest that names a snapshot id found in no volume's
  history (a state file may hold one): the filter skips such an id, and the manifest is
  returned although not every snapshot it names belongs to a volume of the caller.
\<close>

theorem unknown_snapshot_counterexample:
  "handleListCheckpoints sample_tokens (Some ''service:a'') [''chk-00000003'']
      [''vol-0000000a'', ''vol-0000000b''] sample_snap_orders dangling_store
    = (StatusOK, CheckpointsJSON [sample_checkpoint ''chk-00000003'' [''snap-000000a1'', ''snap-deadbeef'']]) \<and>
   \<not> known_snapshot dangling_store ''snap-deadbeef'' \<and>
   \<not> owned_snapshot dangling_store ''service:a'' ''snap-deadbeef'' \<and>
   \<not> every_snapshot_owned dangling_store ''service:a''
        (sample_checkpoint ''chk-00000003'' [''snap-000000a1'', ''snap-deadbeef''])"
proof -
  have e: "handleListCheckpoints sample_tokens (Some ''service:a'') [''chk-00000003'']
      [''vol-0000000a'', ''vol-0000000b''] sample_snap_orders dangling_store
    = (StatusOK, CheckpointsJSON [sample_checkpoint ''chk-00000003'' [''snap-000000a1'', ''snap-deadbeef'']])"
    by (simp add: handleListCheckpoints_def principalFromContext_def sample_tokens_def ListCheckpoints_def
        ListVolumesByOwner_def List.map_filter_simps dangling_store_def sample_store_def sample_volume_def
        sample_checkpoint_def VolumeIDForSnapshot_def snaps_of_def sample_snapshot_def
        sample_snap_orders_def respondJSON_def Let_def)
  have k: "\<not> known_snapshot dangling_store ''snap-deadbeef''"
    by (auto simp: known_snapshot_def snapshot_ids_def snaps_of_def dangling_store_def sample_store_def
          sample_snapshot_def split: if_splits)
  then have o: "\<not> owned_snapshot dangling_store ''service:a'' ''snap-deadbeef''"
    unfolding owned_snapshot_def known_snapshot_def by blast
  then have "\<not> every_snapshot_owned dangling_store ''service:a''
        (sample_checkpoint ''chk-00000003'' [''snap-000000a1'', ''snap-deadbeef''])"
    by (simp add: every_snapshot_owned_def sample_checkpoint_def)
  with e k o show ?thesis by blast
qed

end
